theory Spec2Isabelle
  imports Complex_Main
begin

section \<open>The persistent store: scraper/database.py\<close>

text \<open>
  The SQLite database of \<^verbatim>\<open>LeadDatabase\<close> is a record of its tables, each table the list
  of its rows in insertion order. A column that may hold NULL is an \<open>option\<close>. A Python
  argument that may be \<^verbatim>\<open>None\<close> is an \<open>option\<close> too, and a comparison with NULL in a
  \<^verbatim>\<open>WHERE\<close> or a \<^verbatim>\<open>UNIQUE\<close> constraint never holds, as in SQL.

  The clock is read by the caller: \<open>clk_today\<close> is what
  \<^verbatim>\<open>datetime.now().strftime('%Y-%m-%d')\<close> returns, \<open>clk_timestamp\<close> what
  \<^verbatim>\<open>CURRENT_TIMESTAMP\<close> returns, in seconds. One call of a store method reads one clock.
\<close>

type_synonym date = string

record clock =
  clk_today :: date
  clk_timestamp :: int

datatype sql_error = IntegrityError

text \<open>
  A candidate as the discovery client hands it over: a Python dict. For the two keys that
  the code reads with a default (\<^verbatim>\<open>address\<close>, \<^verbatim>\<open>chain\<close>) the outer \<open>option\<close> says whether
  the key is present and the inner one whether its value is \<^verbatim>\<open>None\<close>; for the others
  \<^verbatim>\<open>dict.get\<close> gives \<^verbatim>\<open>None\<close> in both cases. The REAL columns are carried, never computed
  with.
\<close>

record token_data =
  t_address :: "string option option"
  t_contract_address :: "string option"
  t_name :: "string option"
  t_symbol :: "string option"
  t_chain :: "string option option"
  t_website :: "string option"
  t_telegram :: "string option"
  t_twitter :: "string option"
  t_dexscreener_url :: "string option"
  t_volume_24h :: "rat option"
  t_liquidity :: "rat option"
  t_market_cap :: "rat option"
  t_age_hours :: "rat option"
  t_source_url :: "string option"
  t_source_page :: "int option"

record project =
  p_id :: nat
  p_contract_address :: string
  p_name :: "string option"
  p_symbol :: "string option"
  p_chain :: "string option"
  p_website :: "string option"
  p_telegram_url :: "string option"
  p_twitter_url :: "string option"
  p_dexscreener_url :: "string option"
  p_volume_24h :: "rat option"
  p_liquidity :: "rat option"
  p_market_cap :: "rat option"
  p_age_hours :: "rat option"
  p_is_indexed :: "bool option"
  p_index_checked_at :: "int option"
  p_status :: string
  p_discovered_at :: int
  p_updated_at :: int
  p_source_url :: "string option"
  p_source_page :: "int option"

record telegram_group =
  g_id :: nat
  g_project_id :: "nat option"
  g_telegram_url :: string
  g_group_username :: "string option"
  g_joined_at :: "int option"
  g_join_success :: bool
  g_join_error :: "string option"
  g_member_count :: "int option"

record admin =
  a_id :: nat
  a_project_id :: "nat option"
  a_group_id :: "nat option"
  a_username :: string
  a_user_id :: "string option"
  a_first_name :: "string option"
  a_is_owner :: bool
  a_discovered_at :: int

record message =
  m_id :: nat
  m_project_id :: "nat option"
  m_admin_id :: "nat option"
  m_message_text :: string
  m_template_used :: "string option"
  m_sent_at :: "int option"
  m_send_success :: bool
  m_send_error :: "string option"
  m_response_received :: bool
  m_response_text :: "string option"
  m_response_at :: "int option"
  m_converted :: bool
  m_conversion_notes :: "string option"

text \<open>
  A row of \<^verbatim>\<open>daily_metrics\<close>. Its surrogate id is never read by the code modelled here
  and is left out.
\<close>

record daily_metric =
  dm_date :: date
  dm_tokens_found :: int
  dm_tokens_with_telegram :: int
  dm_unindexed_sites_found :: int
  dm_groups_joined :: int
  dm_join_failures :: int
  dm_admins_found :: int
  dm_dms_sent :: int
  dm_dms_failed :: int
  dm_responses_received :: int
  dm_conversions :: int

record db =
  projects :: "project list"
  telegram_groups :: "telegram_group list"
  admins :: "admin list"
  messages :: "message list"
  daily_metrics :: "daily_metric list"

text \<open>
  The column names that \<^verbatim>\<open>_increment_daily_metric\<close> is called with. The source splices the
  name into the SQL text; every call site passes one of these literals.
\<close>

datatype metric =
  Tokens_found | Tokens_with_telegram | Unindexed_sites_found | Groups_joined
  | Join_failures | Admins_found | Dms_sent | Dms_failed | Responses_received | Conversions

text \<open>\<^verbatim>\<open>INTEGER PRIMARY KEY AUTOINCREMENT\<close>: one more than every id in use (no row is ever deleted).\<close>

definition next_rowid :: "nat list \<Rightarrow> nat" where
  "next_rowid ids = Suc (fold max ids 0)"

text \<open>Python truthiness of a value that is \<^verbatim>\<open>None\<close> or a string.\<close>

fun truthy :: "string option \<Rightarrow> bool" where
  "truthy None = False"
| "truthy (Some s) = (s \<noteq> [])"

subsection \<open>Daily metrics\<close>

definition empty_metric :: "date \<Rightarrow> daily_metric" where
  "empty_metric day =
     \<lparr>dm_date = day, dm_tokens_found = 0, dm_tokens_with_telegram = 0,
      dm_unindexed_sites_found = 0, dm_groups_joined = 0, dm_join_failures = 0,
      dm_admins_found = 0, dm_dms_sent = 0, dm_dms_failed = 0,
      dm_responses_received = 0, dm_conversions = 0\<rparr>"

fun counter :: "metric \<Rightarrow> daily_metric \<Rightarrow> int" where
  "counter Tokens_found r = dm_tokens_found r"
| "counter Tokens_with_telegram r = dm_tokens_with_telegram r"
| "counter Unindexed_sites_found r = dm_unindexed_sites_found r"
| "counter Groups_joined r = dm_groups_joined r"
| "counter Join_failures r = dm_join_failures r"
| "counter Admins_found r = dm_admins_found r"
| "counter Dms_sent r = dm_dms_sent r"
| "counter Dms_failed r = dm_dms_failed r"
| "counter Responses_received r = dm_responses_received r"
| "counter Conversions r = dm_conversions r"

text \<open>\<^verbatim>\<open>UPDATE daily_metrics SET m = m + ?\<close> on one row.\<close>

fun bump :: "metric \<Rightarrow> int \<Rightarrow> daily_metric \<Rightarrow> daily_metric" where
  "bump Tokens_found n r = r\<lparr>dm_tokens_found := dm_tokens_found r + n\<rparr>"
| "bump Tokens_with_telegram n r = r\<lparr>dm_tokens_with_telegram := dm_tokens_with_telegram r + n\<rparr>"
| "bump Unindexed_sites_found n r = r\<lparr>dm_unindexed_sites_found := dm_unindexed_sites_found r + n\<rparr>"
| "bump Groups_joined n r = r\<lparr>dm_groups_joined := dm_groups_joined r + n\<rparr>"
| "bump Join_failures n r = r\<lparr>dm_join_failures := dm_join_failures r + n\<rparr>"
| "bump Admins_found n r = r\<lparr>dm_admins_found := dm_admins_found r + n\<rparr>"
| "bump Dms_sent n r = r\<lparr>dm_dms_sent := dm_dms_sent r + n\<rparr>"
| "bump Dms_failed n r = r\<lparr>dm_dms_failed := dm_dms_failed r + n\<rparr>"
| "bump Responses_received n r = r\<lparr>dm_responses_received := dm_responses_received r + n\<rparr>"
| "bump Conversions n r = r\<lparr>dm_conversions := dm_conversions r + n\<rparr>"

text \<open>
  \<^verbatim>\<open>_increment_daily_metric(metric, amount)\<close>: \<^verbatim>\<open>INSERT OR IGNORE\<close> a row for today (the
  date is \<^verbatim>\<open>UNIQUE\<close>, so the insert is ignored when a row is there), then add \<open>amount\<close> to
  the column in every row of today.
\<close>

definition increment_daily_metric :: "date \<Rightarrow> metric \<Rightarrow> int \<Rightarrow> db \<Rightarrow> db" where
  "increment_daily_metric today m amount d =
     (let rows = (if today \<in> set (map dm_date (daily_metrics d)) then daily_metrics d
                  else daily_metrics d @ [empty_metric today])
      in d\<lparr>daily_metrics := map (\<lambda>r. if dm_date r = today then bump m amount r else r) rows\<rparr>)"

text \<open>\<^verbatim>\<open>get_daily_metrics(date)\<close>: the first row of that date, or \<^verbatim>\<open>None\<close>.\<close>

definition get_daily_metrics :: "date \<Rightarrow> db \<Rightarrow> daily_metric option" where
  "get_daily_metrics day d = find (\<lambda>r. dm_date r = day) (daily_metrics d)"

text \<open>
  How the reports read a counter of a day (\<^verbatim>\<open>daily_report.py\<close>): a day with no row has
  nothing to report, which the totals count as 0.
\<close>

definition counter_on :: "date \<Rightarrow> metric \<Rightarrow> db \<Rightarrow> int" where
  "counter_on day m d = (case get_daily_metrics day d of None \<Rightarrow> 0 | Some r \<Rightarrow> counter m r)"

subsection \<open>Projects\<close>

text \<open>\<^verbatim>\<open>token_data.get('address', token_data.get('contract_address'))\<close>\<close>

definition token_address :: "token_data \<Rightarrow> string option" where
  "token_address t = (case t_address t of Some v \<Rightarrow> v | None \<Rightarrow> t_contract_address t)"

text \<open>\<^verbatim>\<open>token_data.get('chain', 'solana')\<close>\<close>

definition token_chain :: "token_data \<Rightarrow> string option" where
  "token_chain t = (case t_chain t of Some v \<Rightarrow> v | None \<Rightarrow> Some ''solana'')"

definition new_project :: "clock \<Rightarrow> nat \<Rightarrow> string \<Rightarrow> token_data \<Rightarrow> project" where
  "new_project clk pid addr t =
     \<lparr>p_id = pid, p_contract_address = addr, p_name = t_name t, p_symbol = t_symbol t,
      p_chain = token_chain t, p_website = t_website t, p_telegram_url = t_telegram t,
      p_twitter_url = t_twitter t, p_dexscreener_url = t_dexscreener_url t,
      p_volume_24h = t_volume_24h t, p_liquidity = t_liquidity t,
      p_market_cap = t_market_cap t, p_age_hours = t_age_hours t,
      p_is_indexed = None, p_index_checked_at = None, p_status = ''discovered'',
      p_discovered_at = clk_timestamp clk, p_updated_at = clk_timestamp clk,
      p_source_url = t_source_url t, p_source_page = t_source_page t\<rparr>"

text \<open>
  The \<^verbatim>\<open>INSERT INTO projects\<close> of \<^verbatim>\<open>add_project\<close>: \<^verbatim>\<open>contract_address\<close> is
  \<^verbatim>\<open>UNIQUE NOT NULL\<close>, so a NULL address and an address already stored both raise
  \<^verbatim>\<open>sqlite3.IntegrityError\<close>. The result is \<^verbatim>\<open>cursor.lastrowid\<close> and the new table.
\<close>

definition insert_project :: "clock \<Rightarrow> token_data \<Rightarrow> db \<Rightarrow> sql_error + nat \<times> db" where
  "insert_project clk t d =
     (case token_address t of
        None \<Rightarrow> Inl IntegrityError
      | Some addr \<Rightarrow>
          if addr \<in> set (map p_contract_address (projects d)) then Inl IntegrityError
          else (let pid = next_rowid (map p_id (projects d))
                in Inr (pid, d\<lparr>projects := projects d @ [new_project clk pid addr t]\<rparr>)))"

text \<open>\<^verbatim>\<open>SELECT id FROM projects WHERE contract_address = ?\<close>, then \<^verbatim>\<open>fetchone\<close>.\<close>

definition select_project_id :: "string option \<Rightarrow> db \<Rightarrow> nat option" where
  "select_project_id a d =
     (case a of
        None \<Rightarrow> None
      | Some addr \<Rightarrow> map_option p_id (find (\<lambda>r. p_contract_address r = addr) (projects d)))"

definition add_project :: "clock \<Rightarrow> token_data \<Rightarrow> db \<Rightarrow> nat option \<times> db" where
  "add_project clk t d =
     (case insert_project clk t d of
        Inr (pid, d1) \<Rightarrow>
          (let d2 = increment_daily_metric (clk_today clk) Tokens_found 1 d1;
               d3 = (if truthy (t_telegram t)
                     then increment_daily_metric (clk_today clk) Tokens_with_telegram 1 d2
                     else d2)
           in (Some pid, d3))
      | Inl IntegrityError \<Rightarrow> (select_project_id (token_address t) d, d))"

text \<open>\<^verbatim>\<open>project_exists(contract_address)\<close>\<close>

definition project_exists :: "string option \<Rightarrow> db \<Rightarrow> bool" where
  "project_exists a d =
     (case a of None \<Rightarrow> False | Some addr \<Rightarrow> addr \<in> set (map p_contract_address (projects d)))"

text \<open>\<^verbatim>\<open>UPDATE projects SET status = ?, updated_at = CURRENT_TIMESTAMP WHERE id = ?\<close>\<close>

definition update_project_status :: "clock \<Rightarrow> nat option \<Rightarrow> string \<Rightarrow> db \<Rightarrow> db" where
  "update_project_status clk pid st d =
     d\<lparr>projects := map (\<lambda>r. if Some (p_id r) = pid
                              then r\<lparr>p_status := st, p_updated_at := clk_timestamp clk\<rparr>
                              else r) (projects d)\<rparr>"

definition update_index_status :: "clock \<Rightarrow> nat option \<Rightarrow> bool \<Rightarrow> db \<Rightarrow> db" where
  "update_index_status clk pid is_indexed d =
     (let d1 = d\<lparr>projects := map (\<lambda>r. if Some (p_id r) = pid
                                        then r\<lparr>p_is_indexed := Some is_indexed,
                                               p_index_checked_at := Some (clk_timestamp clk)\<rparr>
                                        else r) (projects d)\<rparr>
      in if \<not> is_indexed then increment_daily_metric (clk_today clk) Unindexed_sites_found 1 d1
         else d1)"

text \<open>
  \<^verbatim>\<open>ORDER BY discovered_at DESC\<close>: a stable insertion sort, so rows of one timestamp keep
  their table order (SQLite leaves the order of ties open).
\<close>

fun insert_desc :: "project \<Rightarrow> project list \<Rightarrow> project list" where
  "insert_desc x [] = [x]"
| "insert_desc x (y # ys) =
     (if p_discovered_at y \<le> p_discovered_at x then x # y # ys else y # insert_desc x ys)"

definition order_by_discovered_desc :: "project list \<Rightarrow> project list" where
  "order_by_discovered_desc rows = foldr insert_desc rows []"

text \<open>
  \<^verbatim>\<open>get_uncontacted_projects(limit, only_unindexed)\<close>: status \<^verbatim>\<open>'discovered'\<close>, a group link
  that is not NULL and, when asked, \<^verbatim>\<open>is_indexed = 0\<close>; newest first, at most \<open>limit\<close> rows.
\<close>

definition get_uncontacted_projects :: "nat \<Rightarrow> bool \<Rightarrow> db \<Rightarrow> project list" where
  "get_uncontacted_projects limit only_unindexed d =
     take limit (order_by_discovered_desc
       (filter (\<lambda>r. p_status r = ''discovered'' \<and> p_telegram_url r \<noteq> None
                     \<and> (if only_unindexed then p_is_indexed r = Some False else True))
          (projects d)))"


text \<open>
  Whether \<^verbatim>\<open>add_project\<close> takes its insert branch: the candidate has a contract identifier
  and no stored project has it.
\<close>

definition first_insert :: "token_data \<Rightarrow> db \<Rightarrow> bool" where
  "first_insert t d =
     (case token_address t of None \<Rightarrow> False
      | Some a \<Rightarrow> a \<notin> set (map p_contract_address (projects d)))"

subsection \<open>Group joins, admins, messages\<close>

text \<open>
  \<^verbatim>\<open>add_telegram_group(project_id, telegram_url, joined, error)\<close>. The table is
  \<^verbatim>\<open>UNIQUE(project_id, telegram_url)\<close>: a second row for the pair raises
  \<^verbatim>\<open>IntegrityError\<close> and the method returns \<^verbatim>\<open>None\<close> with nothing written.
\<close>

definition group_conflict :: "nat option \<Rightarrow> string \<Rightarrow> db \<Rightarrow> bool" where
  "group_conflict pid url d =
     (\<exists>g \<in> set (telegram_groups d).
        g_project_id g \<noteq> None \<and> g_project_id g = pid \<and> g_telegram_url g = url)"

definition add_telegram_group ::
  "clock \<Rightarrow> nat option \<Rightarrow> string \<Rightarrow> bool \<Rightarrow> string option \<Rightarrow> db \<Rightarrow> nat option \<times> db" where
  "add_telegram_group clk pid url joined err d =
     (if group_conflict pid url d
      then (None, d)
      else (let gid = next_rowid (map g_id (telegram_groups d));
                d1 = d\<lparr>telegram_groups := telegram_groups d @
                       [\<lparr>g_id = gid, g_project_id = pid, g_telegram_url = url,
                         g_group_username = None, g_joined_at = Some (clk_timestamp clk),
                         g_join_success = joined, g_join_error = err,
                         g_member_count = None\<rparr>]\<rparr>;
                d2 = (if joined
                      then update_project_status clk pid ''joined''
                             (increment_daily_metric (clk_today clk) Groups_joined 1 d1)
                      else increment_daily_metric (clk_today clk) Join_failures 1 d1)
            in (Some gid, d2)))"

text \<open>
  \<^verbatim>\<open>add_admin(project_id, group_id, username, user_id, first_name, is_owner)\<close>, with
  \<^verbatim>\<open>UNIQUE(project_id, username)\<close>: on conflict the id of the stored row is selected.
\<close>

definition same_admin :: "nat option \<Rightarrow> string \<Rightarrow> admin \<Rightarrow> bool" where
  "same_admin pid username a =
     (a_project_id a \<noteq> None \<and> a_project_id a = pid \<and> a_username a = username)"

definition add_admin ::
  "clock \<Rightarrow> nat option \<Rightarrow> nat option \<Rightarrow> string \<Rightarrow> string option \<Rightarrow> string option \<Rightarrow> bool
     \<Rightarrow> db \<Rightarrow> nat option \<times> db" where
  "add_admin clk pid gid username user_id first_name is_owner d =
     (if \<exists>a \<in> set (admins d). same_admin pid username a
      then (map_option a_id (find (same_admin pid username) (admins d)), d)
      else (let aid = next_rowid (map a_id (admins d));
                d1 = d\<lparr>admins := admins d @
                       [\<lparr>a_id = aid, a_project_id = pid, a_group_id = gid,
                         a_username = username, a_user_id = user_id,
                         a_first_name = first_name, a_is_owner = is_owner,
                         a_discovered_at = clk_timestamp clk\<rparr>]\<rparr>
            in (Some aid, increment_daily_metric (clk_today clk) Admins_found 1 d1)))"

text \<open>
  \<^verbatim>\<open>FROM admins a LEFT JOIN messages m ON a.id = m.admin_id AND m.send_success = 1\<close>:
  every admin paired with each successful message addressed to it, or once with NULL when
  there is none.
\<close>

definition left_join_messages :: "db \<Rightarrow> (admin \<times> message option) list" where
  "left_join_messages d =
     concat (map (\<lambda>a.
        (let ms = filter (\<lambda>m. m_admin_id m = Some (a_id a) \<and> m_send_success m) (messages d)
         in if ms = [] then [(a, None)] else map (\<lambda>m. (a, Some m)) ms)) (admins d))"

text \<open>
  \<^verbatim>\<open>get_uncontacted_admins(project_id)\<close>: the join's rows
  \<^verbatim>\<open>WHERE a.project_id = ? AND m.id IS NULL\<close>, projected to the admin.
\<close>

definition get_uncontacted_admins :: "nat option \<Rightarrow> db \<Rightarrow> admin list" where
  "get_uncontacted_admins pid d =
     map fst (filter (\<lambda>(a, m). a_project_id a \<noteq> None \<and> a_project_id a = pid \<and> m = None)
                (left_join_messages d))"

text \<open>\<^verbatim>\<open>add_message(project_id, admin_id, message_text, template_used, success, error)\<close>\<close>

definition add_message ::
  "clock \<Rightarrow> nat option \<Rightarrow> nat option \<Rightarrow> string \<Rightarrow> string option \<Rightarrow> bool \<Rightarrow> string option
     \<Rightarrow> db \<Rightarrow> nat \<times> db" where
  "add_message clk pid aid text template success err d =
     (let mid = next_rowid (map m_id (messages d));
          d1 = d\<lparr>messages := messages d @
                 [\<lparr>m_id = mid, m_project_id = pid, m_admin_id = aid, m_message_text = text,
                   m_template_used = template, m_sent_at = Some (clk_timestamp clk),
                   m_send_success = success, m_send_error = err,
                   m_response_received = False, m_response_text = None,
                   m_response_at = None, m_converted = False,
                   m_conversion_notes = None\<rparr>]\<rparr>;
          d2 = (if success
                then update_project_status clk pid ''contacted''
                       (increment_daily_metric (clk_today clk) Dms_sent 1 d1)
                else increment_daily_metric (clk_today clk) Dms_failed 1 d1)
      in (mid, d2))"

text \<open>\<^verbatim>\<open>record_response(message_id, response_text)\<close>\<close>

definition record_response :: "clock \<Rightarrow> nat option \<Rightarrow> string option \<Rightarrow> db \<Rightarrow> db" where
  "record_response clk mid text d =
     increment_daily_metric (clk_today clk) Responses_received 1
       (d\<lparr>messages := map (\<lambda>m. if Some (m_id m) = mid
                                 then m\<lparr>m_response_received := True, m_response_text := text,
                                        m_response_at := Some (clk_timestamp clk)\<rparr>
                                 else m) (messages d)\<rparr>)"

subsection \<open>Summary statistics\<close>

text \<open>
  The response rate is computed in Python floats: IEEE 754 doubles, every operation
  rounded to the nearest double, a tie to the even mantissa. A positive double is modelled
  exactly, as its mantissa and exponent \<open>(m, e)\<close> standing for \<open>m * 2 ^ e\<close> with
  \<open>2 ^ 52 \<le> m \<le> 2 ^ 53\<close>; zero is \<open>(0, 0)\<close>. The counts of the store are far from the
  range where a double overflows or loses its normal form, and nothing here is negative.
\<close>

type_synonym double = "int \<times> int"

definition pow2 :: "int \<Rightarrow> rat" where
  "pow2 e = (if 0 \<le> e then 2 ^ nat e else 1 / 2 ^ nat (- e))"

definition double_value :: "double \<Rightarrow> rat" where
  "double_value x = of_int (fst x) * pow2 (snd x)"

text \<open>The number of binary digits of a positive integer.\<close>

function bit_length :: "int \<Rightarrow> nat" where
  "bit_length n = (if n \<le> 0 then 0 else Suc (bit_length (n div 2)))"
  by pat_completeness auto
termination
  by (relation "measure (\<lambda>n. nat n)") auto

declare bit_length.simps [simp del]

text \<open>The integer nearest to \<open>n / d\<close> for \<open>d > 0\<close>, a tie to the even one.\<close>

definition round_half_even :: "int \<Rightarrow> int \<Rightarrow> int" where
  "round_half_even n d =
     (let q = n div d; r = n mod d
      in if 2 * r < d then q else if d < 2 * r then q + 1
         else if even q then q else q + 1)"

text \<open>
  The double nearest to \<open>p / q\<close> for \<open>p \<ge> 0\<close> and \<open>q > 0\<close>: the exponent \<open>l\<close> of the
  leading bit of the quotient lies within one of the difference of the bit lengths, and the
  quotient is rounded at 53 bits.
\<close>

definition nearest_double :: "int \<Rightarrow> int \<Rightarrow> double" where
  "nearest_double p q =
     (if p = 0 then (0, 0)
      else (let k = int (bit_length p) - int (bit_length q);
                l = (if (if 0 \<le> k then q * 2 ^ nat k \<le> p else q \<le> p * 2 ^ nat (- k))
                     then k else k - 1);
                e = l - 52
            in (if 0 \<le> e then round_half_even p (q * 2 ^ nat e)
                else round_half_even (p * 2 ^ nat (- e)) q, e)))"

text \<open>\<^verbatim>\<open>a / b\<close> of two Python ints with \<open>b > 0\<close>: the quotient, correctly rounded.\<close>

definition py_truediv :: "nat \<Rightarrow> nat \<Rightarrow> double" where
  "py_truediv a b = nearest_double (int a) (int b)"

text \<open>\<^verbatim>\<open>x * c\<close> of a float and a small int \<open>c\<close> (which is a double itself): the product, rounded.\<close>

definition py_mul_int :: "double \<Rightarrow> int \<Rightarrow> double" where
  "py_mul_int x c =
     (if 0 \<le> snd x then nearest_double (fst x * c * 2 ^ nat (snd x)) 1
      else nearest_double (fst x * c) (2 ^ nat (- snd x)))"

text \<open>
  \<^verbatim>\<open>round(x, 1)\<close>: the exact value of the double is rounded to the nearest tenth, a tie to
  the even tenth, and the result is the double nearest to that decimal. The model gives the
  number of tenths; the float returned is the one that prints as this decimal.
\<close>

definition py_round_tenths :: "double \<Rightarrow> int" where
  "py_round_tenths x =
     (if 0 \<le> snd x then 10 * fst x * 2 ^ nat (snd x)
      else round_half_even (10 * fst x) (2 ^ nat (- snd x)))"

record summary_stats =
  total_projects :: nat
  projects_with_telegram :: nat
  unindexed_sites :: nat
  projects_contacted :: nat
  total_dms_sent :: nat
  responses_received :: nat
  response_rate :: rat
  groups_joined :: nat

text \<open>
  \<^verbatim>\<open>get_summary_stats()\<close>. \<open>response_rate\<close> is the decimal with one place that the float of
  the source prints as (and the int 0 of the \<^verbatim>\<open>else\<close> branch).
\<close>

definition get_summary_stats :: "db \<Rightarrow> summary_stats" where
  "get_summary_stats d =
     (let sent = length (filter m_send_success (messages d));
          responses = length (filter m_response_received (messages d))
      in \<lparr>total_projects = length (projects d),
          projects_with_telegram = length (filter (\<lambda>r. p_telegram_url r \<noteq> None) (projects d)),
          unindexed_sites = length (filter (\<lambda>r. p_is_indexed r = Some False) (projects d)),
          projects_contacted =
            length (remdups (concat (map (\<lambda>m. case m_project_id m of None \<Rightarrow> [] | Some p \<Rightarrow> [p])
                                       (filter m_send_success (messages d))))),
          total_dms_sent = sent,
          responses_received = responses,
          response_rate =
            (if sent > 0
             then of_int (py_round_tenths (py_mul_int (py_truediv responses sent) 100)) / 10
             else 0),
          groups_joined = length (filter g_join_success (telegram_groups d))\<rparr>)"

section \<open>The Telegram automator: scraper/telegram_automator.py\<close>

subsection \<open>Strings\<close>

text \<open>\<^verbatim>\<open>str(n)\<close> of a Python int, as the f-strings of the source print it.\<close>

definition digit_char :: "nat \<Rightarrow> char" where
  "digit_char n = ''0123456789'' ! n"

function str_nat :: "nat \<Rightarrow> string" where
  "str_nat n = (if n < 10 then [digit_char n] else str_nat (n div 10) @ [digit_char (n mod 10)])"
  by pat_completeness auto
termination
  by (relation "measure (\<lambda>n. n)") auto

declare str_nat.simps [simp del]

definition str_int :: "int \<Rightarrow> string" where
  "str_int i = (if i < 0 then CHR ''-'' # str_nat (nat (- i)) else str_nat (nat i))"

definition starts_with :: "string \<Rightarrow> string \<Rightarrow> bool" where
  "starts_with lit s = (take (length lit) s = lit)"

text \<open>\<^verbatim>\<open>old in s\<close>\<close>

fun contains :: "string \<Rightarrow> string \<Rightarrow> bool" where
  "contains old [] = (old = [])"
| "contains old (c # cs) = (starts_with old (c # cs) \<or> contains old cs)"

text \<open>
  \<^verbatim>\<open>s.replace(old, new)\<close> for a non-empty \<open>old\<close>: every occurrence, left to right, without
  overlap. (Every \<open>old\<close> of the source is a non-empty literal; for the empty one the
  model returns \<open>s\<close>.)
\<close>

function py_replace :: "string \<Rightarrow> string \<Rightarrow> string \<Rightarrow> string" where
  "py_replace old new [] = []"
| "py_replace old new (c # cs) =
     (if old \<noteq> [] \<and> starts_with old (c # cs)
      then new @ py_replace old new (drop (length old) (c # cs))
      else c # py_replace old new cs)"
  by pat_completeness auto
termination
  by (relation "measure (\<lambda>(old, new, s). length s)") (auto simp: starts_with_def)

text \<open>The character class \<^verbatim>\<open>[a-zA-Z0-9_]\<close> and \<^verbatim>\<open>str.lower\<close> on it.\<close>

definition is_word_char :: "char \<Rightarrow> bool" where
  "is_word_char c =
     (let n = (of_char c :: nat)
      in (97 \<le> n \<and> n \<le> 122) \<or> (65 \<le> n \<and> n \<le> 90) \<or> (48 \<le> n \<and> n \<le> 57) \<or> n = 95)"

definition lower_char :: "char \<Rightarrow> char" where
  "lower_char c = (let n = (of_char c :: nat) in if 65 \<le> n \<and> n \<le> 90 then char_of (n + 32) else c)"

text \<open>
  \<^verbatim>\<open>re.search(lit + '([a-zA-Z0-9_]+)', s)\<close> for a literal \<open>lit\<close>, giving group 1: the leftmost
  place where the literal is followed by a word character, and the longest run of word
  characters there.
\<close>

fun re_search_after :: "string \<Rightarrow> string \<Rightarrow> string option" where
  "re_search_after lit [] = None"
| "re_search_after lit (c # cs) =
     (if starts_with lit (c # cs) \<and> takeWhile is_word_char (drop (length lit) (c # cs)) \<noteq> []
      then Some (takeWhile is_word_char (drop (length lit) (c # cs)))
      else re_search_after lit cs)"

text \<open>The loop over the patterns of \<^verbatim>\<open>_extract_username\<close>.\<close>

fun first_username :: "string list \<Rightarrow> string \<Rightarrow> string option" where
  "first_username [] url = None"
| "first_username (lit # lits) url =
     (case re_search_after lit url of
        None \<Rightarrow> first_username lits url
      | Some username \<Rightarrow>
          if map lower_char username \<in> set [''joinchat'', ''share'', ''addstickers'']
          then first_username lits url
          else Some username)"

definition extract_username :: "string \<Rightarrow> string option" where
  "extract_username url =
     (if url = [] then None else first_username [''t.me/'', ''telegram.me/'', ''@''] url)"

subsection \<open>State and rate limiting\<close>

text \<open>
  The fields of \<^verbatim>\<open>TelegramAutomator\<close> that the methods read and write. A \<^verbatim>\<open>datetime\<close> is its
  number of microseconds. Two logs stand for what the object does to the world:
  \<open>slept\<close> lists the durations (seconds) of the \<^verbatim>\<open>asyncio.sleep\<close> calls made,
  \<open>sent\<close> the (username, text) pairs handed to \<^verbatim>\<open>client.send_message\<close> that went out.
\<close>

datatype py_error = ValueError | KeyError

record automator =
  join_delay :: int
  dm_delay :: int
  max_joins_per_hour :: int
  max_dms_per_hour :: int
  join_times :: "int list"
  dm_times :: "int list"
  stat_groups_joined :: int
  stat_join_failures :: int
  stat_dms_sent :: int
  stat_dm_failures :: int
  stat_admins_found :: int
  slept :: "int list"
  sent :: "(string \<times> string) list"

text \<open>\<^verbatim>\<open>timedelta(hours=1)\<close> in microseconds.\<close>

definition one_hour :: int where
  "one_hour = 3600000000"

text \<open>
  \<^verbatim>\<open>int(delta.total_seconds())\<close>: the whole seconds of a \<^verbatim>\<open>timedelta\<close>, truncated towards
  zero. (\<^verbatim>\<open>total_seconds\<close> is a float; for a span of hours its error is far below the
  microsecond, so the truncation sees the exact quotient.)
\<close>

definition total_seconds_int :: "int \<Rightarrow> int" where
  "total_seconds_int us = (if 0 \<le> us then us div 1000000 else - ((- us) div 1000000))"

text \<open>\<^verbatim>\<open>min(xs)\<close>, which raises \<^verbatim>\<open>ValueError\<close> on the empty list.\<close>

fun py_min :: "int list \<Rightarrow> py_error + int" where
  "py_min [] = Inl ValueError"
| "py_min (x # xs) = Inr (fold min xs x)"

text \<open>
  \<^verbatim>\<open>_can_join()\<close> with \<open>now\<close> for its \<^verbatim>\<open>datetime.now()\<close>: the stale entries are dropped
  from \<^verbatim>\<open>self.join_times\<close> whatever the answer is.
\<close>

definition can_join :: "int \<Rightarrow> automator \<Rightarrow> (py_error + bool \<times> int) \<times> automator" where
  "can_join now a =
     (let hour_ago = now - one_hour;
          a1 = a\<lparr>join_times := filter (\<lambda>t. hour_ago < t) (join_times a)\<rparr>
      in if max_joins_per_hour a1 \<le> int (length (join_times a1))
         then (case py_min (join_times a1) of
                 Inl e \<Rightarrow> (Inl e, a1)
               | Inr oldest \<Rightarrow>
                   (Inr (False, max 0 (total_seconds_int (oldest + one_hour - now))), a1))
         else (Inr (True, 0), a1))"

definition can_dm :: "int \<Rightarrow> automator \<Rightarrow> (py_error + bool \<times> int) \<times> automator" where
  "can_dm now a =
     (let hour_ago = now - one_hour;
          a1 = a\<lparr>dm_times := filter (\<lambda>t. hour_ago < t) (dm_times a)\<rparr>
      in if max_dms_per_hour a1 \<le> int (length (dm_times a1))
         then (case py_min (dm_times a1) of
                 Inl e \<Rightarrow> (Inl e, a1)
               | Inr oldest \<Rightarrow>
                   (Inr (False, max 0 (total_seconds_int (oldest + one_hour - now))), a1))
         else (Inr (True, 0), a1))"

subsection \<open>Joining a group\<close>

text \<open>
  What the Telegram client can raise, each with the text \<^verbatim>\<open>str(e)\<close> gives; a flood wait
  carries its seconds.
\<close>

datatype tg_error =
  FloodWaitError int string
  | ChannelPrivateError string
  | UsernameInvalidError string
  | UserPrivacyRestrictedError string
  | UserNotMutualContactError string
  | PeerFloodError string
  | OtherError string

fun str_of_error :: "tg_error \<Rightarrow> string" where
  "str_of_error (FloodWaitError n s) = s"
| "str_of_error (ChannelPrivateError s) = s"
| "str_of_error (UsernameInvalidError s) = s"
| "str_of_error (UserPrivacyRestrictedError s) = s"
| "str_of_error (UserNotMutualContactError s) = s"
| "str_of_error (PeerFloodError s) = s"
| "str_of_error (OtherError s) = s"

text \<open>
  The answers of the world to one call of \<^verbatim>\<open>join_group\<close>: the clock at the rate check,
  \<^verbatim>\<open>get_entity\<close> (an error, or whether the entity is a \<^verbatim>\<open>Channel\<close> or \<^verbatim>\<open>Chat\<close>), whether
  the membership probe \<^verbatim>\<open>get_participants\<close> returned (any exception of it is swallowed),
  the join request, and the clock when the join is recorded.
\<close>

record join_world =
  jw_now :: int
  jw_get_entity :: "tg_error + bool"
  jw_get_participants :: bool
  jw_join_request :: "tg_error option"
  jw_now_joined :: int

text \<open>The \<^verbatim>\<open>except\<close> clauses of \<^verbatim>\<open>join_group\<close>, in their order.\<close>

fun join_group_except :: "tg_error \<Rightarrow> automator \<Rightarrow> (bool \<times> string option) \<times> automator" where
  "join_group_except (FloodWaitError n s) a =
     ((False, Some (''FloodWait: '' @ str_int n @ ''s'')), a)"
| "join_group_except (ChannelPrivateError s) a = ((False, Some ''Private channel''), a)"
| "join_group_except (UsernameInvalidError s) a = ((False, Some ''Invalid username''), a)"
| "join_group_except e a =
     ((False, Some (str_of_error e)), a\<lparr>stat_join_failures := stat_join_failures a + 1\<rparr>)"

definition join_group ::
  "join_world \<Rightarrow> string \<Rightarrow> automator \<Rightarrow> (py_error + bool \<times> string option) \<times> automator" where
  "join_group w telegram_url a =
     (case extract_username telegram_url of
        None \<Rightarrow> (Inr (False, Some (''Could not extract username from '' @ telegram_url)), a)
      | Some username \<Rightarrow>
          (case can_join (jw_now w) a of
             (Inl e, a1) \<Rightarrow> (Inl e, a1)
           | (Inr (can, wait_time), a1) \<Rightarrow>
               if \<not> can
               then (Inr (False, Some (''Rate limited, wait '' @ str_int wait_time @ ''s'')), a1)
               else (case jw_get_entity w of
                       Inl e \<Rightarrow> (case join_group_except e a1 of (r, a2) \<Rightarrow> (Inr r, a2))
                     | Inr is_group \<Rightarrow>
                         if \<not> is_group then (Inr (False, Some ''Not a group/channel''), a1)
                         else if jw_get_participants w then (Inr (True, None), a1)
                         else (case jw_join_request w of
                                 Some e \<Rightarrow>
                                   (case join_group_except e a1 of (r, a2) \<Rightarrow> (Inr r, a2))
                               | None \<Rightarrow>
                                   (Inr (True, None),
                                    a1\<lparr>join_times := join_times a1 @ [jw_now_joined w],
                                       stat_groups_joined := stat_groups_joined a1 + 1,
                                       slept := slept a1 @ [join_delay a1]\<rparr>)))))"

subsection \<open>Listing the admins of a group\<close>

record participant =
  pt_bot :: bool
  pt_username :: "string option"
  pt_id :: int
  pt_first_name :: "string option"
  pt_creator :: bool

record admin_info =
  ai_username :: string
  ai_user_id :: int
  ai_first_name :: string
  ai_is_owner :: bool

text \<open>
  The world of one call of \<^verbatim>\<open>get_group_admins\<close>: \<^verbatim>\<open>get_entity\<close>, the participants that
  \<^verbatim>\<open>iter_participants\<close> yields, and the error it raises after them, if any.
\<close>

record admins_world =
  aw_get_entity :: "tg_error + bool"
  aw_participants :: "participant list"
  aw_iter_error :: "tg_error option"

text \<open>The body of the loop: bots and participants without a username are skipped.\<close>

fun collect_admins :: "participant list \<Rightarrow> admin_info list" where
  "collect_admins [] = []"
| "collect_admins (p # ps) =
     (if pt_bot p then collect_admins ps
      else (case pt_username p of
              None \<Rightarrow> collect_admins ps
            | Some u \<Rightarrow>
                if u = [] then collect_admins ps
                else \<lparr>ai_username = u, ai_user_id = pt_id p,
                      ai_first_name = (case pt_first_name p of None \<Rightarrow> [] | Some f \<Rightarrow> f),
                      ai_is_owner = pt_creator p\<rparr> # collect_admins ps))"

definition get_group_admins ::
  "admins_world \<Rightarrow> string \<Rightarrow> automator \<Rightarrow> admin_info list \<times> automator" where
  "get_group_admins w telegram_url a =
     (case extract_username telegram_url of
        None \<Rightarrow> ([], a)
      | Some username \<Rightarrow>
          (case aw_get_entity w of
             Inl e \<Rightarrow> ([], a)
           | Inr is_group \<Rightarrow>
               if \<not> is_group then ([], a)
               else (let found = collect_admins (aw_participants w);
                         a1 = a\<lparr>stat_admins_found := stat_admins_found a + int (length found)\<rparr>
                     in if aw_iter_error w \<noteq> None then ([], a1) else (found, a1))))"

subsection \<open>Sending a direct message\<close>

text \<open>The personalisation at the head of the \<^verbatim>\<open>try\<close> block of \<^verbatim>\<open>send_dm\<close>.\<close>

definition personalize :: "string \<Rightarrow> string option \<Rightarrow> string option \<Rightarrow> string" where
  "personalize message project_name token_symbol =
     (let m0 = (if contains ''{admin_name_greeting}'' message
                then py_replace ''{admin_name_greeting}'' [] message else message);
          m1 = (case project_name of
                  None \<Rightarrow> m0
                | Some n \<Rightarrow> if n = [] then m0 else py_replace ''{project_name}'' n m0);
          m2 = (case token_symbol of
                  None \<Rightarrow> m1
                | Some s \<Rightarrow> if s = [] then m1 else py_replace ''{token_symbol}'' s m1)
      in m2)"

text \<open>
  The world of one call of \<^verbatim>\<open>send_dm\<close>: the clock at the rate check, what
  \<^verbatim>\<open>get_entity\<close> or \<^verbatim>\<open>send_message\<close> raised (nothing when the message went out), and the
  clock when the send is recorded.
\<close>

record dm_world =
  dw_now :: int
  dw_send :: "tg_error option"
  dw_now_sent :: int

fun send_dm_except :: "tg_error \<Rightarrow> automator \<Rightarrow> (bool \<times> string option) \<times> automator" where
  "send_dm_except (UserPrivacyRestrictedError s) a =
     ((False, Some ''Privacy restricted''), a\<lparr>stat_dm_failures := stat_dm_failures a + 1\<rparr>)"
| "send_dm_except (UserNotMutualContactError s) a =
     ((False, Some ''Not mutual contact''), a\<lparr>stat_dm_failures := stat_dm_failures a + 1\<rparr>)"
| "send_dm_except (PeerFloodError s) a =
     ((False, Some ''Peer flood''), a\<lparr>stat_dm_failures := stat_dm_failures a + 1\<rparr>)"
| "send_dm_except (FloodWaitError n s) a =
     ((False, Some (''FloodWait: '' @ str_int n @ ''s'')), a)"
| "send_dm_except e a =
     ((False, Some (str_of_error e)), a\<lparr>stat_dm_failures := stat_dm_failures a + 1\<rparr>)"

definition send_dm ::
  "dm_world \<Rightarrow> string \<Rightarrow> string \<Rightarrow> string option \<Rightarrow> string option \<Rightarrow> automator
     \<Rightarrow> (py_error + bool \<times> string option) \<times> automator" where
  "send_dm w username message project_name token_symbol a =
     (case can_dm (dw_now w) a of
        (Inl e, a1) \<Rightarrow> (Inl e, a1)
      | (Inr (can, wait_time), a1) \<Rightarrow>
          if \<not> can
          then (Inr (False, Some (''Rate limited, wait '' @ str_int wait_time @ ''s'')), a1)
          else (let final_message = personalize message project_name token_symbol
                in case dw_send w of
                     Some e \<Rightarrow> (case send_dm_except e a1 of (r, a2) \<Rightarrow> (Inr r, a2))
                   | None \<Rightarrow>
                       (Inr (True, None),
                        a1\<lparr>sent := sent a1 @ [(username, final_message)],
                           dm_times := dm_times a1 @ [dw_now_sent w],
                           stat_dms_sent := stat_dms_sent a1 + 1,
                           slept := slept a1 @ [dm_delay a1]\<rparr>)))"

subsection \<open>Processing one project\<close>

text \<open>The result dict of \<^verbatim>\<open>process_project\<close>.\<close>

record pp_result =
  r_project_id :: "nat option"
  r_name :: "string option"
  r_symbol :: "string option"
  r_joined :: bool
  r_admins_found :: nat
  r_dm_sent :: bool
  r_error :: "string option"

text \<open>
  The world of one call of \<^verbatim>\<open>process_project\<close>: the worlds of its three stages and the
  clock of each store call (\<open>pw_clk_admin k\<close> for the \<open>k\<close>-th \<^verbatim>\<open>add_admin\<close>).
\<close>

record process_world =
  pw_join :: join_world
  pw_clk_group :: clock
  pw_admins :: admins_world
  pw_clk_admin :: "nat \<Rightarrow> clock"
  pw_dm :: dm_world
  pw_clk_message :: clock

text \<open>An optional string inside an f-string: \<^verbatim>\<open>None\<close> prints as \<^verbatim>\<open>None\<close>.\<close>

fun fmt_opt :: "string option \<Rightarrow> string" where
  "fmt_opt None = ''None''"
| "fmt_opt (Some s) = s"

text \<open>Truthiness of an id that may be \<^verbatim>\<open>None\<close>.\<close>

fun truthy_id :: "nat option \<Rightarrow> bool" where
  "truthy_id None = False"
| "truthy_id (Some n) = (n \<noteq> 0)"

text \<open>The loop \<^verbatim>\<open>for admin in admins: db.add_admin(...)\<close>.\<close>

fun record_admins ::
  "(nat \<Rightarrow> clock) \<Rightarrow> nat \<Rightarrow> nat option \<Rightarrow> nat option \<Rightarrow> admin_info list \<Rightarrow> db \<Rightarrow> db" where
  "record_admins clk k pid gid [] d = d"
| "record_admins clk k pid gid (x # xs) d =
     record_admins clk (Suc k) pid gid xs
       (snd (add_admin (clk k) pid gid (ai_username x) (Some (str_int (ai_user_id x)))
               (Some (ai_first_name x)) (ai_is_owner x) d))"

text \<open>
  \<^verbatim>\<open>process_project(project, message_template, db)\<close> for a project read from the store
  (a row of \<^verbatim>\<open>projects\<close> as a dict, which has no key \<^verbatim>\<open>telegram\<close>) and a database (the
  cycle always passes one). An exception of a rate check leaves through \<open>Inl\<close>, with the
  store as the stages before it committed it.
\<close>

definition process_project ::
  "process_world \<Rightarrow> project \<Rightarrow> string \<Rightarrow> automator \<Rightarrow> db
     \<Rightarrow> (py_error + pp_result) \<times> automator \<times> db" where
  "process_project w p message_template a d =
     (let pid = Some (p_id p);
          result = \<lparr>r_project_id = pid, r_name = p_name p, r_symbol = p_symbol p,
                    r_joined = False, r_admins_found = 0, r_dm_sent = False, r_error = None\<rparr>
      in case p_telegram_url p of
           None \<Rightarrow> (Inr (result\<lparr>r_error := Some ''No Telegram URL''\<rparr>), a, d)
         | Some telegram_url \<Rightarrow>
             if telegram_url = [] then (Inr (result\<lparr>r_error := Some ''No Telegram URL''\<rparr>), a, d)
             else
               (case join_group (pw_join w) telegram_url a of
                  (Inl e, a1) \<Rightarrow> (Inl e, a1, d)
                | (Inr (joined, join_error), a1) \<Rightarrow>
                    if \<not> joined
                    then (Inr (result\<lparr>r_error := Some (''Join failed: '' @ fmt_opt join_error)\<rparr>),
                          a1,
                          snd (add_telegram_group (pw_clk_group w) pid telegram_url False
                                 join_error d))
                    else
                      (case add_telegram_group (pw_clk_group w) pid telegram_url True None d of
                         (group_id, d1) \<Rightarrow>
                           (case get_group_admins (pw_admins w) telegram_url a1 of
                              ([], a2) \<Rightarrow>
                                (Inr (result\<lparr>r_joined := True,
                                             r_error := Some ''No admins found''\<rparr>), a2, d1)
                            | (first # others, a2) \<Rightarrow>
                                (let admins = first # others;
                                     d2 = (if truthy_id group_id
                                           then record_admins (pw_clk_admin w) 0 pid group_id admins d1
                                           else d1);
                                     target_admin = (case find ai_is_owner admins of
                                                       Some t \<Rightarrow> t | None \<Rightarrow> first)
                                 in case send_dm (pw_dm w) (ai_username target_admin)
                                           message_template (p_name p) (p_symbol p) a2 of
                                      (Inl e, a3) \<Rightarrow> (Inl e, a3, d2)
                                    | (Inr (sent_ok, dm_error), a3) \<Rightarrow>
                                        (let admin_id = map_option a_id
                                               (find (\<lambda>ua. a_username ua = ai_username target_admin)
                                                  (get_uncontacted_admins pid d2));
                                             d3 = snd (add_message (pw_clk_message w) pid admin_id
                                                         message_template (Some ''default'')
                                                         sent_ok dm_error d2)
                                         in (Inr (result\<lparr>r_joined := True,
                                                   r_admins_found := length admins,
                                                   r_dm_sent := sent_ok,
                                                   r_error := (if \<not> sent_ok
                                                     then Some (''DM failed: '' @ fmt_opt dm_error)
                                                     else None)\<rparr>),
                                             a3, d3)))))))"

section \<open>The cycle controller: scraper/autonomous_scraper.py\<close>

text \<open>
  The configuration values that \<^verbatim>\<open>_scrape_cycle\<close> reads itself. The filter thresholds go
  to the discovery client unread and are part of its answer here.
\<close>

record scraper_config =
  cfg_urls :: "string list"
  cfg_index_enabled :: bool
  cfg_only_target_unindexed :: bool
  cfg_message_template :: string
  cfg_cooldown_after_dm_minutes :: int
  cfg_cooldown_after_join_minutes :: int

text \<open>
  The world of one cycle: what \<^verbatim>\<open>scrape_with_filters\<close> returns for a chain, what the index
  probe answers for a website, the world of \<^verbatim>\<open>process_project\<close> for each project, and
  the clocks of the \<open>k\<close>-th \<^verbatim>\<open>add_project\<close> and \<^verbatim>\<open>update_index_status\<close>.
\<close>

record cycle_world =
  cw_discover :: "string \<Rightarrow> token_data list"
  cw_clk_add :: "nat \<Rightarrow> clock"
  cw_check_indexed :: "string \<Rightarrow> bool option"
  cw_clk_index :: "nat \<Rightarrow> clock"
  cw_process :: "project \<Rightarrow> process_world"

text \<open>
  The chains named by the configured URLs. The source collects them in a set; the model
  walks them in the order of their first URL (Python leaves the order of a set open).
\<close>

definition chain_of_url :: "string \<Rightarrow> string list" where
  "chain_of_url url =
     (if contains ''solana'' url then [''solana'']
      else if contains ''ethereum'' url then [''ethereum'']
      else if contains ''base'' url then [''base'']
      else [])"

definition chains_of_urls :: "string list \<Rightarrow> string list" where
  "chains_of_urls urls =
     (let named = remdups (concat (map chain_of_url urls))
      in if named = [] then [''solana''] else named)"

text \<open>
  The addresses to skip, as the cycle builds them: the contract addresses of
  \<^verbatim>\<open>get_uncontacted_projects(limit=1000, only_unindexed=False)\<close>. An element of the set is
  a string or \<^verbatim>\<open>None\<close>.
\<close>

definition initial_skip_addresses :: "db \<Rightarrow> string option list" where
  "initial_skip_addresses d =
     map (\<lambda>r. Some (p_contract_address r))
       (filter (\<lambda>r. p_contract_address r \<noteq> [])
          (get_uncontacted_projects 1000 False d))"

text \<open>
  The inner loop over the tokens of one chain, on the pair (\<^verbatim>\<open>new_tokens\<close>,
  \<^verbatim>\<open>skip_addresses\<close>). \<^verbatim>\<open>token['address']\<close> raises \<^verbatim>\<open>KeyError\<close> when the key is missing.
\<close>

fun filter_new_tokens ::
  "token_data list \<Rightarrow> token_data list \<times> string option list
     \<Rightarrow> py_error + token_data list \<times> string option list" where
  "filter_new_tokens [] acc = Inr acc"
| "filter_new_tokens (t # ts) (new_tokens, skip) =
     (if (case t_address t of None \<Rightarrow> None | Some v \<Rightarrow> v) \<notin> set skip
      then (case t_address t of
              None \<Rightarrow> Inl KeyError
            | Some v \<Rightarrow> filter_new_tokens ts (new_tokens @ [t], v # skip))
      else filter_new_tokens ts (new_tokens, skip))"

text \<open>The outer loop over the chains.\<close>

fun scrape_chains ::
  "(string \<Rightarrow> token_data list) \<Rightarrow> string list \<Rightarrow> token_data list \<times> string option list
     \<Rightarrow> py_error + token_data list \<times> string option list" where
  "scrape_chains discover [] acc = Inr acc"
| "scrape_chains discover (chain # cs) acc =
     (case filter_new_tokens (discover chain) acc of
        Inl e \<Rightarrow> Inl e
      | Inr acc1 \<Rightarrow> scrape_chains discover cs acc1)"

text \<open>The tokens the cycle takes for new: the first part of what the two loops leave.\<close>

definition new_tokens_of ::
  "(string \<Rightarrow> token_data list) \<Rightarrow> string list \<Rightarrow> db \<Rightarrow> py_error + token_data list" where
  "new_tokens_of discover chain_list d =
     (case scrape_chains discover chain_list ([], initial_skip_addresses d) of
        Inl e \<Rightarrow> Inl e
      | Inr (new_tokens, skip) \<Rightarrow> Inr new_tokens)"

text \<open>\<^verbatim>\<open>for token in new_tokens: self.db.add_project(token)\<close>\<close>

fun add_projects :: "(nat \<Rightarrow> clock) \<Rightarrow> nat \<Rightarrow> token_data list \<Rightarrow> db \<Rightarrow> db" where
  "add_projects clk k [] d = d"
| "add_projects clk k (t # ts) d = add_projects clk (Suc k) ts (snd (add_project (clk k) t d))"

text \<open>\<^verbatim>\<open>get_project(contract_address=address)\<close>: \<^verbatim>\<open>None\<close> for a falsy address.\<close>

definition get_project_by_address :: "string option \<Rightarrow> db \<Rightarrow> project option" where
  "get_project_by_address a d =
     (case a of
        None \<Rightarrow> None
      | Some addr \<Rightarrow> if addr = [] then None
                     else find (\<lambda>r. p_contract_address r = addr) (projects d))"

text \<open>\<^verbatim>\<open>_check_indexes(tokens)\<close>: the loop over the tokens that have a website.\<close>

fun check_indexes ::
  "(string \<Rightarrow> bool option) \<Rightarrow> (nat \<Rightarrow> clock) \<Rightarrow> nat \<Rightarrow> token_data list \<Rightarrow> db \<Rightarrow> db" where
  "check_indexes probe clk k [] d = d"
| "check_indexes probe clk k (t # ts) d =
     (case t_website t of
        None \<Rightarrow> check_indexes probe clk k ts d
      | Some website \<Rightarrow>
          if website = [] then check_indexes probe clk k ts d
          else (case get_project_by_address (case t_address t of None \<Rightarrow> None | Some v \<Rightarrow> v) d of
                  None \<Rightarrow> check_indexes probe clk k ts d
                | Some project \<Rightarrow>
                    (case probe website of
                       None \<Rightarrow> check_indexes probe clk k ts d
                     | Some is_indexed \<Rightarrow>
                         check_indexes probe clk (Suc k) ts
                           (update_index_status (clk k) (Some (p_id project)) is_indexed d))))"

text \<open>
  The loop \<^verbatim>\<open>for project in to_process\<close>: one \<^verbatim>\<open>process_project\<close> each and the cooldown
  sleep after it. An exception ends the loop and the cycle.
\<close>

fun outreach_loop ::
  "(project \<Rightarrow> process_world) \<Rightarrow> scraper_config \<Rightarrow> project list \<Rightarrow> automator \<Rightarrow> db
     \<Rightarrow> py_error option \<times> automator \<times> db" where
  "outreach_loop world cfg [] a d = (None, a, d)"
| "outreach_loop world cfg (p # ps) a d =
     (case process_project (world p) p (cfg_message_template cfg) a d of
        (Inl e, a1, d1) \<Rightarrow> (Some e, a1, d1)
      | (Inr result, a1, d1) \<Rightarrow>
          (let a2 = (if r_dm_sent result
                     then a1\<lparr>slept := slept a1 @ [cfg_cooldown_after_dm_minutes cfg * 60]\<rparr>
                     else if r_joined result
                     then a1\<lparr>slept := slept a1 @ [cfg_cooldown_after_join_minutes cfg * 60]\<rparr>
                     else a1)
           in outreach_loop world cfg ps a2 d1))"

text \<open>\<^verbatim>\<open>_scrape_cycle()\<close>\<close>

definition scrape_cycle ::
  "cycle_world \<Rightarrow> scraper_config \<Rightarrow> automator \<Rightarrow> db \<Rightarrow> py_error option \<times> automator \<times> db" where
  "scrape_cycle w cfg a d =
     (if cfg_urls cfg = [] then (None, a, d)
      else (case new_tokens_of (cw_discover w) (chains_of_urls (cfg_urls cfg)) d of
              Inl e \<Rightarrow> (Some e, a, d)
            | Inr new_tokens \<Rightarrow>
                if new_tokens = [] then (None, a, d)
                else (let d1 = add_projects (cw_clk_add w) 0 new_tokens d;
                          d2 = (if cfg_index_enabled cfg
                                then check_indexes (cw_check_indexed w) (cw_clk_index w) 0
                                       new_tokens d1
                                else d1);
                          to_process = get_uncontacted_projects 20
                                         (cfg_only_target_unindexed cfg) d2
                      in outreach_loop (cw_process w) cfg to_process a d2)))"

subsection \<open>The order of the statuses\<close>

text \<open>
  The forward order of the pipeline, as the specification draws it:
  \<open>discovered \<rightarrow> joined \<rightarrow> contacted \<rightarrow> {responded, converted}\<close>. A status may stay, or
  move to a later stage; \<open>responded\<close> and \<open>converted\<close> are both after \<open>contacted\<close> and
  not ordered between themselves.
\<close>

definition status_stage :: "string \<Rightarrow> nat option" where
  "status_stage s =
     (if s = ''discovered'' then Some 0
      else if s = ''joined'' then Some 1
      else if s = ''contacted'' then Some 2
      else if s = ''responded'' \<or> s = ''converted'' then Some 3
      else None)"

definition status_forward :: "string \<Rightarrow> string \<Rightarrow> bool" where
  "status_forward s s' =
     (s = s' \<or> (case (status_stage s, status_stage s') of
                   (Some i, Some j) \<Rightarrow> i < j
                 | _ \<Rightarrow> False))"

text \<open>The status of the project with a given id, if the store has one.\<close>

definition status_of :: "nat \<Rightarrow> db \<Rightarrow> string option" where
  "status_of i d = map_option p_status (find (\<lambda>r. p_id r = i) (projects d))"

text \<open>
  The cycles that the daemon loop \<^verbatim>\<open>run\<close> makes, one after another, each in its own world.
  The loop catches what a cycle raises, writes it to the error log and goes on with the
  next cycle; the error log, the error counter and the sleeps between the cycles are left
  out here.
\<close>

fun run_cycles ::
  "cycle_world list \<Rightarrow> scraper_config \<Rightarrow> automator \<Rightarrow> db \<Rightarrow> automator \<times> db" where
  "run_cycles [] cfg a d = (a, d)"
| "run_cycles (w # ws) cfg a d =
     (case scrape_cycle w cfg a d of (e, a1, d1) \<Rightarrow> run_cycles ws cfg a1 d1)"

text \<open>
  No project of the first store has gone back in the second: each is still there, with its
  status or a later one.
\<close>

definition never_back :: "db \<Rightarrow> db \<Rightarrow> bool" where
  "never_back d d' =
     (\<forall>i s. status_of i d = Some s \<longrightarrow>
        (\<exists>s'. status_of i d' = Some s' \<and> status_forward s s'))"

text \<open>
  What one call of \<open>process_project\<close> may do to the statuses: the ids stay, and only the
  project at hand may change, to \<open>joined\<close> or \<open>contacted\<close>.
\<close>

definition moves_only :: "nat \<Rightarrow> db \<Rightarrow> db \<Rightarrow> bool" where
  "moves_only pid d d' =
     (map p_id (projects d') = map p_id (projects d)
      \<and> (\<forall>i. status_of i d' = status_of i d
             \<or> (i = pid \<and> status_of i d \<noteq> None
                 \<and> (status_of i d' = Some ''joined'' \<or> status_of i d' = Some ''contacted''))))"

subsection \<open>Templates\<close>

text \<open>
  A message template cut into its pieces: literal text and the three placeholders that
  \<^verbatim>\<open>send_dm\<close> knows. \<open>template_text\<close> is the template as it is configured,
  \<open>filled\<close> the same pieces with the greeting dropped and the name and the symbol put in.
\<close>

datatype segment = Text string | Greeting | Project_name | Token_symbol

fun placeholder :: "segment \<Rightarrow> string" where
  "placeholder (Text s) = s"
| "placeholder Greeting = ''{admin_name_greeting}''"
| "placeholder Project_name = ''{project_name}''"
| "placeholder Token_symbol = ''{token_symbol}''"

definition template_text :: "segment list \<Rightarrow> string" where
  "template_text segs = concat (map placeholder segs)"

fun fill_segment :: "string \<Rightarrow> string \<Rightarrow> segment \<Rightarrow> string" where
  "fill_segment name symbol (Text s) = s"
| "fill_segment name symbol Greeting = []"
| "fill_segment name symbol Project_name = name"
| "fill_segment name symbol Token_symbol = symbol"

definition filled :: "string \<Rightarrow> string \<Rightarrow> segment list \<Rightarrow> string" where
  "filled name symbol segs = concat (map (fill_segment name symbol) segs)"

text \<open>A piece of literal text is plain when it has no opening brace.\<close>

fun plain_segment :: "segment \<Rightarrow> bool" where
  "plain_segment (Text s) = (CHR ''{'' \<notin> set s)"
| "plain_segment seg = True"

text \<open>
  A string is inert for a replacement when the replacement passes over it: neither the
  string nor its border with what follows starts an occurrence.
\<close>

definition inert :: "string \<Rightarrow> string \<Rightarrow> string \<Rightarrow> bool" where
  "inert P new s = (\<forall>rest. py_replace P new (s @ rest) = s @ py_replace P new rest)"


section \<open>Concrete inputs\<close>

definition db_empty :: db where
  "db_empty = \<lparr>projects = [], telegram_groups = [], admins = [], messages = [], daily_metrics = []\<rparr>"

definition token_a :: token_data where
  "token_a =
     \<lparr>t_address = Some (Some ''So1anaMintA''), t_contract_address = None,
      t_name = Some ''Alpha'', t_symbol = Some ''ALP'', t_chain = Some (Some ''solana''),
      t_website = Some ''https://alpha.example'', t_telegram = Some ''https://t.me/alphagroup'',
      t_twitter = None, t_dexscreener_url = None, t_volume_24h = None, t_liquidity = None,
      t_market_cap = None, t_age_hours = None, t_source_url = None, t_source_page = None\<rparr>"

definition clock_day1 :: clock where
  "clock_day1 = \<lparr>clk_today = ''2026-01-02'', clk_timestamp = 1000\<rparr>"

definition clock_day2 :: clock where
  "clock_day2 = \<lparr>clk_today = ''2026-01-03'', clk_timestamp = 90000\<rparr>"

definition token_b :: token_data where
  "token_b =
     \<lparr>t_address = None, t_contract_address = Some ''0xB0b'',
      t_name = Some ''Beta'', t_symbol = Some ''BET'', t_chain = None,
      t_website = None, t_telegram = None,
      t_twitter = None, t_dexscreener_url = None, t_volume_24h = None, t_liquidity = None,
      t_market_cap = None, t_age_hours = None, t_source_url = None, t_source_page = None\<rparr>"

definition admin_owner :: admin where
  "admin_owner =
     \<lparr>a_id = 1, a_project_id = Some 1, a_group_id = Some 1, a_username = ''alice'',
      a_user_id = Some ''501'', a_first_name = Some ''Alice'', a_is_owner = True,
      a_discovered_at = 1100\<rparr>"

definition admin_other :: admin where
  "admin_other =
     \<lparr>a_id = 2, a_project_id = Some 1, a_group_id = Some 1, a_username = ''bob'',
      a_user_id = Some ''502'', a_first_name = Some ''Bob'', a_is_owner = False,
      a_discovered_at = 1100\<rparr>"

definition message_to :: "nat \<Rightarrow> nat option \<Rightarrow> bool \<Rightarrow> bool \<Rightarrow> message" where
  "message_to mid aid success responded =
     \<lparr>m_id = mid, m_project_id = Some 1, m_admin_id = aid, m_message_text = ''hello'',
      m_template_used = Some ''default'', m_sent_at = Some 1200, m_send_success = success,
      m_send_error = (if success then None else Some ''Privacy restricted''),
      m_response_received = responded, m_response_text = None, m_response_at = None,
      m_converted = False, m_conversion_notes = None\<rparr>"

text \<open>Two admins of project 1: the owner was messaged successfully, the other one was not.\<close>

definition db_admins :: db where
  "db_admins =
     \<lparr>projects = [], telegram_groups = [], admins = [admin_owner, admin_other],
      messages = [message_to 1 (Some 1) True False, message_to 2 (Some 2) False False],
      daily_metrics = []\<rparr>"

text \<open>
  An automator whose join window is full (ceiling 2, joins at 0 s and 60 s) and whose
  message window is full (ceiling 1, a message at 120 s).
\<close>

definition automator_full :: automator where
  "automator_full =
     \<lparr>join_delay = 30, dm_delay = 60, max_joins_per_hour = 2, max_dms_per_hour = 1,
      join_times = [0, 60000000], dm_times = [120000000],
      stat_groups_joined = 2, stat_join_failures = 0, stat_dms_sent = 1,
      stat_dm_failures = 0, stat_admins_found = 3, slept = [], sent = []\<rparr>"

text \<open>An automator with the default limits that has done nothing yet.\<close>

definition automator_fresh :: automator where
  "automator_fresh =
     \<lparr>join_delay = 30, dm_delay = 60, max_joins_per_hour = 10, max_dms_per_hour = 5,
      join_times = [], dm_times = [],
      stat_groups_joined = 0, stat_join_failures = 0, stat_dms_sent = 0,
      stat_dm_failures = 0, stat_admins_found = 0, slept = [], sent = []\<rparr>"

text \<open>Two worlds of a join: the client is a member already; the client joins now.\<close>

definition world_member :: join_world where
  "world_member =
     \<lparr>jw_now = 5000000, jw_get_entity = Inr True, jw_get_participants = True,
      jw_join_request = None, jw_now_joined = 6000000\<rparr>"

definition world_new_join :: join_world where
  "world_new_join =
     \<lparr>jw_now = 5000000, jw_get_entity = Inr True, jw_get_participants = False,
      jw_join_request = None, jw_now_joined = 6000000\<rparr>"

text \<open>A stored project with the given id, contract address, status and group link.\<close>

definition project_row :: "nat \<Rightarrow> string \<Rightarrow> string \<Rightarrow> string option \<Rightarrow> project" where
  "project_row i addr st url =
     \<lparr>p_id = i, p_contract_address = addr, p_name = Some ''Alpha'', p_symbol = Some ''ALP'',
      p_chain = Some ''solana'', p_website = None, p_telegram_url = url,
      p_twitter_url = None, p_dexscreener_url = None, p_volume_24h = None,
      p_liquidity = None, p_market_cap = None, p_age_hours = None,
      p_is_indexed = Some False, p_index_checked_at = Some 900, p_status = st,
      p_discovered_at = 800, p_updated_at = 900, p_source_url = None, p_source_page = None\<rparr>"

text \<open>A store that knows the contract address of \<open>token_a\<close> as a project contacted before.\<close>

definition db_contacted :: db where
  "db_contacted =
     \<lparr>projects = [project_row 1 ''So1anaMintA'' ''contacted'' (Some ''https://t.me/alphagroup'')],
      telegram_groups = [], admins = [], messages = [], daily_metrics = []\<rparr>"

text \<open>A store with one project that is still \<open>discovered\<close> and has a group link.\<close>

definition db_discovered :: db where
  "db_discovered =
     \<lparr>projects = [project_row 1 ''So1anaMintA'' ''discovered'' (Some ''https://t.me/alphagroup'')],
      telegram_groups = [], admins = [], messages = [], daily_metrics = []\<rparr>"

text \<open>The stored project of \<open>db_discovered\<close>, as the cycle hands it to \<open>process_project\<close>.\<close>

definition lead1 :: project where
  "lead1 = project_row 1 ''So1anaMintA'' ''discovered'' (Some ''https://t.me/alphagroup'')"

definition world_admins :: admins_world where
  "world_admins =
     \<lparr>aw_get_entity = Inr True,
      aw_participants =
        [\<lparr>pt_bot = False, pt_username = Some ''bob'', pt_id = 502,
          pt_first_name = Some ''Bob'', pt_creator = False\<rparr>,
         \<lparr>pt_bot = True, pt_username = Some ''helperbot'', pt_id = 900,
          pt_first_name = None, pt_creator = False\<rparr>,
         \<lparr>pt_bot = False, pt_username = Some ''alice'', pt_id = 501,
          pt_first_name = Some ''Alice'', pt_creator = True\<rparr>],
      aw_iter_error = None\<rparr>"

text \<open>
  A call of \<open>process_project\<close> half an hour into the hour of \<open>automator_full\<close>: the rate
  check of the join comes at 1800.5 s.
\<close>

definition world_join_denied :: process_world where
  "world_join_denied =
     \<lparr>pw_join = \<lparr>jw_now = 1800500000, jw_get_entity = Inr True, jw_get_participants = False,
                 jw_join_request = None, jw_now_joined = 1801000000\<rparr>,
      pw_clk_group = clock_day1,
      pw_admins = world_admins,
      pw_clk_admin = (\<lambda>k. clock_day1),
      pw_dm = \<lparr>dw_now = 1900000000, dw_send = None, dw_now_sent = 1901000000\<rparr>,
      pw_clk_message = clock_day1\<rparr>"

text \<open>An automator whose message window is full (ceiling 1) and whose join window is empty.\<close>

definition automator_dm_full :: automator where
  "automator_dm_full =
     \<lparr>join_delay = 30, dm_delay = 60, max_joins_per_hour = 10, max_dms_per_hour = 1,
      join_times = [], dm_times = [120000000],
      stat_groups_joined = 0, stat_join_failures = 0, stat_dms_sent = 1,
      stat_dm_failures = 0, stat_admins_found = 0, slept = [], sent = []\<rparr>"

text \<open>A call in which the join goes through and the rate check of the message comes at 260 s.\<close>

definition world_dm_denied :: process_world where
  "world_dm_denied =
     \<lparr>pw_join = \<lparr>jw_now = 200000000, jw_get_entity = Inr True, jw_get_participants = False,
                 jw_join_request = None, jw_now_joined = 201000000\<rparr>,
      pw_clk_group = clock_day1,
      pw_admins = world_admins,
      pw_clk_admin = (\<lambda>k. clock_day1),
      pw_dm = \<lparr>dw_now = 260000000, dw_send = None, dw_now_sent = 261000000\<rparr>,
      pw_clk_message = clock_day1\<rparr>"

text \<open>What the stages of the call in \<open>world_dm_denied\<close> leave before the message.\<close>

definition automator_dm_joined :: automator where
  "automator_dm_joined =
     automator_dm_full\<lparr>join_times := [201000000], stat_groups_joined := 1, slept := [30]\<rparr>"

definition info_bob :: admin_info where
  "info_bob = \<lparr>ai_username = ''bob'', ai_user_id = 502, ai_first_name = ''Bob'', ai_is_owner = False\<rparr>"

definition info_alice :: admin_info where
  "info_alice = \<lparr>ai_username = ''alice'', ai_user_id = 501, ai_first_name = ''Alice'', ai_is_owner = True\<rparr>"


text \<open>A send that goes out, and a template with all three placeholders.\<close>

definition world_dm_ok :: dm_world where
  "world_dm_ok = \<lparr>dw_now = 7000000, dw_send = None, dw_now_sent = 8000000\<rparr>"

definition template_example :: "segment list" where
  "template_example =
     [Greeting, Text ''Hi '', Project_name, Text '' team, about $'', Token_symbol]"

definition token_c :: token_data where
  "token_c =
     \<lparr>t_address = Some (Some ''0xC0c''), t_contract_address = None,
      t_name = Some ''Gamma'', t_symbol = Some ''GAM'', t_chain = Some (Some ''solana''),
      t_website = None, t_telegram = None,
      t_twitter = None, t_dexscreener_url = None, t_volume_24h = None, t_liquidity = None,
      t_market_cap = None, t_age_hours = None, t_source_url = None, t_source_page = None\<rparr>"

text \<open>
  One whole cycle: the discovery client reports \<open>token_c\<close>, the index probe has no answer,
  and for every project the join goes through, the admins of \<open>world_admins\<close> are listed and
  the message goes out.
\<close>

definition world_success :: process_world where
  "world_success =
     \<lparr>pw_join = world_new_join,
      pw_clk_group = clock_day1,
      pw_admins = world_admins,
      pw_clk_admin = (\<lambda>k. clock_day1),
      pw_dm = world_dm_ok,
      pw_clk_message = clock_day1\<rparr>"

definition cycle_world_example :: cycle_world where
  "cycle_world_example =
     \<lparr>cw_discover = (\<lambda>chain. [token_c]),
      cw_clk_add = (\<lambda>k. clock_day1),
      cw_check_indexed = (\<lambda>website. None),
      cw_clk_index = (\<lambda>k. clock_day1),
      cw_process = (\<lambda>p. world_success)\<rparr>"

definition config_example :: scraper_config where
  "config_example =
     \<lparr>cfg_urls = [''https://dexscreener.com/solana''],
      cfg_index_enabled = True,
      cfg_only_target_unindexed = True,
      cfg_message_template = ''Hi {project_name}'',
      cfg_cooldown_after_dm_minutes = 15,
      cfg_cooldown_after_join_minutes = 5\<rparr>"

text \<open>The store of \<open>db_discovered\<close> after the cycle has inserted \<open>token_c\<close>.\<close>

definition db_added :: db where
  "db_added =
     db_discovered\<lparr>projects := projects db_discovered @ [new_project clock_day1 2 ''0xC0c'' token_c],
                   daily_metrics := [(empty_metric ''2026-01-02'')\<lparr>dm_tokens_found := 1\<rparr>]\<rparr>"


text \<open>A store with three messages that went out, one of them answered.\<close>

definition db_third :: db where
  "db_third =
     \<lparr>projects = [], telegram_groups = [], admins = [],
      messages = [message_to 1 (Some 1) True True, message_to 2 (Some 2) True False,
                  message_to 3 (Some 3) True False],
      daily_metrics = []\<rparr>"

section \<open>Properties of the store\<close>

subsection \<open>Daily metrics: helper lemmas\<close>

lemma date_bump [simp]: "dm_date (bump m n r) = dm_date r"
  by (cases m) simp_all

lemma counter_bump: "counter m (bump m' n r) = counter m r + (if m = m' then n else 0)"
  by (cases m; cases m') simp_all

lemma counter_empty [simp]: "counter m (empty_metric day) = 0"
  by (cases m) (simp_all add: empty_metric_def)

lemma date_empty [simp]: "dm_date (empty_metric day) = day"
  by (simp add: empty_metric_def)

lemma find_map_upd:
  "find (\<lambda>r. dm_date r = day) (map (\<lambda>r. if dm_date r = today then bump m n r else r) rows)
     = map_option (\<lambda>r. if dm_date r = today then bump m n r else r) (find (\<lambda>r. dm_date r = day) rows)"
  by (induction rows) simp_all

lemma find_date_append:
  "find (\<lambda>r. dm_date r = day) (rows @ [x]) =
     (case find (\<lambda>r. dm_date r = day) rows of Some r \<Rightarrow> Some r
      | None \<Rightarrow> if dm_date x = day then Some x else None)"
  by (induction rows) auto

lemma find_date_None: "find (\<lambda>r. dm_date r = day) rows = None \<longleftrightarrow> day \<notin> set (map dm_date rows)"
  by (induction rows) auto

lemma find_date_Some: "find (\<lambda>r. dm_date r = day) rows = Some r \<Longrightarrow> dm_date r = day"
  by (induction rows) (auto split: if_splits)

lemma get_daily_metrics_increment:
  "get_daily_metrics day (increment_daily_metric today m n d) =
     (case get_daily_metrics day d of
        Some r \<Rightarrow> Some (if day = today then bump m n r else r)
      | None \<Rightarrow> if day = today then Some (bump m n (empty_metric today)) else None)"
proof (cases "get_daily_metrics day d")
  case None
  then have absent: "day \<notin> set (map dm_date (daily_metrics d))"
    by (simp add: get_daily_metrics_def find_date_None)
  show ?thesis
  proof (cases "day = today")
    case True
    with absent None show ?thesis
      by (simp add: get_daily_metrics_def increment_daily_metric_def find_map_upd
          find_date_append del: map_append map_map)
  next
    case False
    with None show ?thesis
      by (simp add: get_daily_metrics_def increment_daily_metric_def Let_def find_map_upd
          find_date_append del: map_append map_map)
  qed
next
  case (Some r)
  then have r: "dm_date r = day" and present: "day \<in> set (map dm_date (daily_metrics d))"
    using find_date_Some find_date_None[of day "daily_metrics d"]
    by (auto simp: get_daily_metrics_def)
  show ?thesis
  proof (cases "day = today")
    case True
    with Some r present show ?thesis
      by (simp add: get_daily_metrics_def increment_daily_metric_def find_map_upd
          del: map_append map_map)
  next
    case False
    with Some r show ?thesis
      by (simp add: get_daily_metrics_def increment_daily_metric_def Let_def find_map_upd
          find_date_append del: map_append map_map)
  qed
qed

lemma counter_on_increment:
  "counter_on day m (increment_daily_metric today m' n d)
     = counter_on day m d + (if day = today \<and> m = m' then n else 0)"
  by (simp add: counter_on_def get_daily_metrics_increment counter_bump split: option.splits)

subsection \<open>Inserting a project\<close>

lemma projects_increment [simp]: "projects (increment_daily_metric day m n d) = projects d"
  by (simp add: increment_daily_metric_def Let_def)

lemma find_append_new:
  "a \<notin> set (map f xs) \<Longrightarrow> f x = a \<Longrightarrow> find (\<lambda>r. f r = a) (xs @ [x]) = Some x"
  by (induction xs) auto

lemma find_in_set:
  "a \<in> set (map f xs) \<Longrightarrow> \<exists>r. find (\<lambda>r. f r = a) xs = Some r"
  by (induction xs) auto

lemma add_project_existing:
  assumes "token_address t = Some a" "a \<in> set (map p_contract_address (projects d))"
  shows "add_project clk t d = (select_project_id (Some a) d, d)"
  using assms by (simp add: add_project_def insert_project_def)

lemma add_project_null:
  assumes "token_address t = None"
  shows "add_project clk t d = (None, d)"
  using assms by (simp add: add_project_def insert_project_def select_project_id_def)

lemma add_project_fresh_projects:
  assumes "token_address t = Some a" "a \<notin> set (map p_contract_address (projects d))"
  shows "fst (add_project clk t d) = Some (next_rowid (map p_id (projects d)))"
    and "projects (snd (add_project clk t d)) =
           projects d @ [new_project clk (next_rowid (map p_id (projects d))) a t]"
  using assms by (simp_all add: add_project_def insert_project_def Let_def)

lemma add_project_twice:
  assumes "token_address t2 = token_address t1"
  shows "add_project c2 t2 (snd (add_project c1 t1 d)) = (fst (add_project c1 t1 d), snd (add_project c1 t1 d))"
proof (cases "token_address t1")
  case None
  then show ?thesis using assms by (simp add: add_project_null)
next
  case (Some a)
  show ?thesis
  proof (cases "a \<in> set (map p_contract_address (projects d))")
    case True
    then show ?thesis using Some assms by (simp add: add_project_existing)
  next
    case False
    let ?pid = "next_rowid (map p_id (projects d))"
    let ?d1 = "snd (add_project c1 t1 d)"
    have p1: "projects ?d1 = projects d @ [new_project c1 ?pid a t1]"
      using add_project_fresh_projects(2)[OF Some False] .
    have r1: "fst (add_project c1 t1 d) = Some ?pid"
      using add_project_fresh_projects(1)[OF Some False] .
    have mem: "a \<in> set (map p_contract_address (projects ?d1))"
      by (simp add: p1 new_project_def)
    have sel: "select_project_id (Some a) ?d1 = Some ?pid"
      using find_append_new[of a p_contract_address "projects d" "new_project c1 ?pid a t1"] False
      by (simp add: select_project_id_def p1 new_project_def)
    show ?thesis
      using add_project_existing[of t2 a ?d1 c2] mem sel r1 Some assms by simp
  qed
qed

lemma count_rows_append_new:
  "length (filter P (xs @ [x])) = length (filter P xs) + (if P x then 1 else 0)"
  by simp

lemma count_zero_iff:
  "a \<notin> set (map f xs) \<Longrightarrow> length (filter (\<lambda>r. f r = a) xs) = 0"
  by (induction xs) auto

lemma count_pos_iff:
  "a \<in> set (map f xs) \<Longrightarrow> 1 \<le> length (filter (\<lambda>r. f r = a) xs)"
  by (induction xs) auto

lemma add_project_row_count:
  assumes "token_address t = Some a"
  shows "length (filter (\<lambda>r. p_contract_address r = a) (projects (snd (add_project clk t d))))
           = max 1 (length (filter (\<lambda>r. p_contract_address r = a) (projects d)))"
proof (cases "a \<in> set (map p_contract_address (projects d))")
  case True
  then show ?thesis using assms count_pos_iff[OF True]
    by (simp add: add_project_existing)
next
  case False
  then show ?thesis using assms count_zero_iff[OF False] add_project_fresh_projects(2)[OF assms False]
    by (simp add: new_project_def)
qed

lemma add_project_metrics:
  "counter_on day m (snd (add_project clk t d)) =
     counter_on day m d +
       (if day = clk_today clk \<and> first_insert t d \<and>
           (m = Tokens_found \<or> (m = Tokens_with_telegram \<and> truthy (t_telegram t)))
        then 1 else 0)"
proof (cases "token_address t")
  case None
  then show ?thesis by (simp add: add_project_null first_insert_def)
next
  case (Some a)
  show ?thesis
  proof (cases "a \<in> set (map p_contract_address (projects d))")
    case True
    then show ?thesis using Some by (simp add: add_project_existing first_insert_def)
  next
    case False
    have "counter_on day' m' (d\<lparr>projects := ps\<rparr>) = counter_on day' m' d" for ps day' m'
      by (simp add: counter_on_def get_daily_metrics_def)
    then show ?thesis using Some False
      by (simp add: add_project_def insert_project_def Let_def first_insert_def
          counter_on_increment)
  qed
qed

lemma add_project_returns_row:
  assumes "token_address t = Some a"
  shows "\<exists>r \<in> set (projects (snd (add_project clk t d))).
           p_contract_address r = a \<and> fst (add_project clk t d) = Some (p_id r)"
proof (cases "a \<in> set (map p_contract_address (projects d))")
  case True
  then obtain r where r: "find (\<lambda>r. p_contract_address r = a) (projects d) = Some r"
    using find_in_set by fastforce
  then have "r \<in> set (projects d)" "p_contract_address r = a"
    by (auto simp: find_Some_iff)
  then show ?thesis using True assms r
    by (auto simp: add_project_existing select_project_id_def)
next
  case False
  show ?thesis
    using add_project_fresh_projects[OF assms False]
    by (simp add: new_project_def)
qed


text \<open>
  Claim C1. \<^verbatim>\<open>add_project\<close> is idempotent on the contract identifier. For two candidates
  with the same contract identifier, the second call returns what the first returned and
  leaves the whole store as the first call left it: no second project row, no change of
  status or of any outreach table, no metric incremented. After the first call the number of
  rows with the identifier is the larger of 1 and what it was before, and the identity
  returned is the id of a row holding it. The first call adds 1 to \<open>tokens_found\<close> of its
  day exactly when it inserts, and 1 to \<open>tokens_with_telegram\<close> when moreover the
  candidate has a group link; every other counter of every day stays as it was.
\<close>

theorem add_project_idempotent:
  assumes "token_address t2 = token_address t1"
  shows "add_project c2 t2 (snd (add_project c1 t1 d))
           = (fst (add_project c1 t1 d), snd (add_project c1 t1 d))
       \<and> (\<forall>a. token_address t1 = Some a \<longrightarrow>
             length (filter (\<lambda>r. p_contract_address r = a) (projects (snd (add_project c1 t1 d))))
               = max 1 (length (filter (\<lambda>r. p_contract_address r = a) (projects d)))
             \<and> (\<exists>r \<in> set (projects (snd (add_project c1 t1 d))).
                   p_contract_address r = a \<and> fst (add_project c1 t1 d) = Some (p_id r)))
       \<and> (\<forall>day m. counter_on day m (snd (add_project c1 t1 d)) =
             counter_on day m d +
               (if day = clk_today c1 \<and> first_insert t1 d \<and>
                   (m = Tokens_found \<or> (m = Tokens_with_telegram \<and> truthy (t_telegram t1)))
                then 1 else 0))"
  using add_project_twice[OF assms] add_project_row_count add_project_returns_row
    add_project_metrics
  by blast

theorem add_project_idempotent_witness:
  "token_address token_a = token_address token_a
   \<and> fst (add_project clock_day1 token_a db_empty) = Some 1
   \<and> add_project clock_day2 token_a (snd (add_project clock_day1 token_a db_empty))
       = (Some 1, snd (add_project clock_day1 token_a db_empty))
   \<and> counter_on ''2026-01-02'' Tokens_found (snd (add_project clock_day1 token_a db_empty)) = 1
   \<and> counter_on ''2026-01-03'' Tokens_found
        (snd (add_project clock_day2 token_a (snd (add_project clock_day1 token_a db_empty)))) = 0"
proof -
  let ?d1 = "snd (add_project clock_day1 token_a db_empty)"
  have r: "fst (add_project clock_day1 token_a db_empty) = Some 1"
    by (simp add: add_project_def insert_project_def token_address_def token_a_def db_empty_def
        clock_day1_def next_rowid_def Let_def)
  have c0: "counter_on day m db_empty = 0" for day m
    by (simp add: counter_on_def get_daily_metrics_def db_empty_def)
  have f: "first_insert token_a db_empty"
    by (simp add: first_insert_def token_address_def token_a_def db_empty_def)
  note inst = add_project_idempotent[of token_a token_a clock_day2 clock_day1 db_empty, OF refl]
  from inst have twice: "add_project clock_day2 token_a ?d1 = (Some 1, ?d1)"
    using r by simp
  from inst have cnt: "counter_on day m ?d1 = counter_on day m db_empty +
       (if day = clk_today clock_day1 \<and> first_insert token_a db_empty \<and>
           (m = Tokens_found \<or> (m = Tokens_with_telegram \<and> truthy (t_telegram token_a)))
        then 1 else 0)" for day m
    by blast
  have td: "clk_today clock_day1 = ''2026-01-02''"
    by (simp add: clock_day1_def)
  have c1: "counter_on ''2026-01-02'' Tokens_found ?d1 = 1"
    by (simp add: cnt c0 f td)
  have c2: "counter_on ''2026-01-03'' Tokens_found ?d1 = 0"
    by (simp add: cnt c0 f td)
  show ?thesis using r twice c1 c2 by simp
qed

subsection \<open>Uncontacted admins\<close>

lemma left_join_None_iff:
  "(a, None) \<in> set (left_join_messages d) \<longleftrightarrow>
     a \<in> set (admins d) \<and> (\<forall>m \<in> set (messages d). \<not> (m_admin_id m = Some (a_id a) \<and> m_send_success m))"
  by (auto simp: left_join_messages_def Let_def filter_empty_conv split: if_splits)


text \<open>
  Claim C5. \<^verbatim>\<open>get_uncontacted_admins\<close> never returns an admin to whom a message was sent
  with success. In every state of the store, the admins returned for a project are exactly
  the stored admins of that project for which no message row names them with
  \<^verbatim>\<open>send_success = 1\<close>, whatever project the message row names.
\<close>

theorem get_uncontacted_admins_never_contacted:
  "a \<in> set (get_uncontacted_admins pid d) \<longleftrightarrow>
     a \<in> set (admins d) \<and> pid \<noteq> None \<and> a_project_id a = pid
     \<and> (\<forall>m \<in> set (messages d). \<not> (m_admin_id m = Some (a_id a) \<and> m_send_success m))"
proof -
  have "a \<in> set (get_uncontacted_admins pid d) \<longleftrightarrow>
          (a, None) \<in> set (left_join_messages d) \<and> a_project_id a \<noteq> None \<and> a_project_id a = pid"
    by (force simp: get_uncontacted_admins_def)
  then show ?thesis by (auto simp: left_join_None_iff)
qed


theorem get_uncontacted_admins_never_contacted_witness:
  "get_uncontacted_admins (Some 1) db_admins = [admin_other]
   \<and> admin_other \<in> set (admins db_admins)
   \<and> \<not> (\<exists>m \<in> set (messages db_admins). m_admin_id m = Some (a_id admin_other) \<and> m_send_success m)
   \<and> (\<exists>m \<in> set (messages db_admins). m_admin_id m = Some (a_id admin_owner) \<and> m_send_success m)
   \<and> admin_owner \<notin> set (get_uncontacted_admins (Some 1) db_admins)"
proof -
  have ev: "get_uncontacted_admins (Some 1) db_admins = [admin_other]"
    by (simp add: get_uncontacted_admins_def left_join_messages_def db_admins_def
        admin_owner_def admin_other_def message_to_def)
  have sent: "\<exists>m \<in> set (messages db_admins). m_admin_id m = Some (a_id admin_owner) \<and> m_send_success m"
    by (simp add: db_admins_def admin_owner_def message_to_def)
  have "admin_owner \<notin> set (get_uncontacted_admins (Some 1) db_admins)"
    using get_uncontacted_admins_never_contacted[of admin_owner "Some 1" db_admins] sent by blast
  moreover have "admin_other \<in> set (admins db_admins)
     \<and> \<not> (\<exists>m \<in> set (messages db_admins). m_admin_id m = Some (a_id admin_other) \<and> m_send_success m)"
    using get_uncontacted_admins_never_contacted[of admin_other "Some 1" db_admins] ev by simp
  ultimately show ?thesis using ev sent by simp
qed


subsection \<open>Date-scoped counters\<close>

lemma distinct_dates_increment:
  assumes "distinct (map dm_date (daily_metrics d))"
  shows "distinct (map dm_date (daily_metrics (increment_daily_metric today m n d)))"
proof -
  have eq: "map dm_date (map (\<lambda>r. if dm_date r = today then bump m n r else r) rows) = map dm_date rows" for rows
    by (induction rows) simp_all
  show ?thesis using assms
    by (simp add: increment_daily_metric_def Let_def eq del: map_map)
qed

lemma today_rows_increment:
  "length (filter (\<lambda>r. dm_date r = today) (daily_metrics (increment_daily_metric today m n d)))
     = max 1 (length (filter (\<lambda>r. dm_date r = today) (daily_metrics d)))"
proof -
  have eq: "length (filter (\<lambda>r. dm_date r = today) (map (\<lambda>r. if dm_date r = today then bump m n r else r) rows))
      = length (filter (\<lambda>r. dm_date r = today) rows)" for rows
    by (induction rows) simp_all
  show ?thesis
  proof (cases "today \<in> set (map dm_date (daily_metrics d))")
    case True
    then show ?thesis using count_pos_iff[OF True]
      by (simp add: increment_daily_metric_def eq del: map_map filter_map length_filter_map)
  next
    case False
    then show ?thesis using count_zero_iff[OF False] eq[of "daily_metrics d @ [empty_metric today]"]
      by (simp add: increment_daily_metric_def del: map_map map_append filter_map length_filter_map)
  qed
qed

lemma get_daily_metrics_increment_other:
  "day \<noteq> today \<Longrightarrow> get_daily_metrics day (increment_daily_metric today m n d) = get_daily_metrics day d"
  by (simp add: get_daily_metrics_increment split: option.splits)


text \<open>
  Claim C7. The daily counters are scoped by date, one row per date, the row made on the
  first write of that date. An increment keeps the dates of the rows distinct; after it the
  number of rows of today is the larger of 1 and what it was; the row of every other date
  reads as before; and exactly the named counter of today grows, by the amount (every call
  site passes 1). Two inserts of new projects on one date add 2 to \<open>tokens_found\<close> of that
  date and nothing on any other date.
\<close>

theorem daily_metric_date_scoped:
  "(distinct (map dm_date (daily_metrics d)) \<longrightarrow>
      distinct (map dm_date (daily_metrics (increment_daily_metric today m n d))))
   \<and> length (filter (\<lambda>r. dm_date r = today) (daily_metrics (increment_daily_metric today m n d)))
        = max 1 (length (filter (\<lambda>r. dm_date r = today) (daily_metrics d)))
   \<and> (\<forall>day. day \<noteq> today \<longrightarrow>
         get_daily_metrics day (increment_daily_metric today m n d) = get_daily_metrics day d)
   \<and> (\<forall>day m'. counter_on day m' (increment_daily_metric today m n d)
         = counter_on day m' d + (if day = today \<and> m' = m then n else 0))
   \<and> (first_insert t1 d \<and> first_insert t2 (snd (add_project c1 t1 d))
        \<and> clk_today c2 = clk_today c1 \<longrightarrow>
        (\<forall>day. counter_on day Tokens_found (snd (add_project c2 t2 (snd (add_project c1 t1 d))))
           = counter_on day Tokens_found d + (if day = clk_today c1 then 2 else 0)))"
  using distinct_dates_increment[of d today m n] today_rows_increment[of today m n d]
    get_daily_metrics_increment_other counter_on_increment
  by (simp add: add_project_metrics)

theorem daily_metric_date_scoped_witness:
  "first_insert token_a db_empty
   \<and> first_insert token_b (snd (add_project clock_day1 token_a db_empty))
   \<and> counter_on ''2026-01-02'' Tokens_found
        (snd (add_project clock_day1 token_b (snd (add_project clock_day1 token_a db_empty)))) = 2
   \<and> counter_on ''2026-01-01'' Tokens_found
        (snd (add_project clock_day1 token_b (snd (add_project clock_day1 token_a db_empty)))) = 0
   \<and> counter_on ''2026-01-03'' Tokens_found
        (snd (add_project clock_day1 token_b (snd (add_project clock_day1 token_a db_empty)))) = 0
   \<and> distinct (map dm_date (daily_metrics db_empty))
   \<and> distinct (map dm_date (daily_metrics (increment_daily_metric ''2026-01-02'' Tokens_found 1 db_empty)))
   \<and> get_daily_metrics ''2026-01-01'' (increment_daily_metric ''2026-01-02'' Tokens_found 1 db_empty) = None"
proof -
  let ?d1 = "snd (add_project clock_day1 token_a db_empty)"
  let ?d2 = "snd (add_project clock_day1 token_b ?d1)"
  have f1: "first_insert token_a db_empty"
    by (simp add: first_insert_def token_address_def token_a_def db_empty_def)
  have p1: "set (map p_contract_address (projects ?d1)) = {''So1anaMintA''}"
    by (simp add: add_project_def insert_project_def token_address_def token_a_def db_empty_def
        Let_def new_project_def)
  have f2: "first_insert token_b ?d1"
    using p1 by (simp add: first_insert_def token_address_def token_b_def)
  have c0: "counter_on day m db_empty = 0" for day m
    by (simp add: counter_on_def get_daily_metrics_def db_empty_def)
  have td: "clk_today clock_day1 = ''2026-01-02''"
    by (simp add: clock_day1_def)
  have dd: "distinct (map dm_date (daily_metrics db_empty))"
    by (simp add: db_empty_def)
  have g0: "get_daily_metrics ''2026-01-01'' db_empty = None"
    by (simp add: get_daily_metrics_def db_empty_def)
  note inst = daily_metric_date_scoped[of db_empty "''2026-01-02''" Tokens_found 1
      token_a token_b clock_day1 clock_day1]
  from inst f1 f2 have two: "counter_on day Tokens_found ?d2
      = counter_on day Tokens_found db_empty + (if day = clk_today clock_day1 then 2 else 0)" for day
    by blast
  from inst dd have d1: "distinct (map dm_date (daily_metrics
      (increment_daily_metric ''2026-01-02'' Tokens_found 1 db_empty)))"
    by blast
  from inst have "get_daily_metrics ''2026-01-01''
      (increment_daily_metric ''2026-01-02'' Tokens_found 1 db_empty)
      = get_daily_metrics ''2026-01-01'' db_empty"
    by simp
  then have g1: "get_daily_metrics ''2026-01-01''
      (increment_daily_metric ''2026-01-02'' Tokens_found 1 db_empty) = None"
    using g0 by simp
  have a: "counter_on ''2026-01-02'' Tokens_found ?d2 = 2"
    and b: "counter_on ''2026-01-01'' Tokens_found ?d2 = 0"
    and c: "counter_on ''2026-01-03'' Tokens_found ?d2 = 0"
    by (simp_all add: two c0 td)
  show ?thesis using f1 f2 a b c dd d1 g1 by simp
qed

subsection \<open>The response rate\<close>

lemma round_half_even_close:
  assumes "0 < d"
  shows "\<bar>of_int (round_half_even n d) - of_int n / of_int d\<bar> \<le> (1 / 2 :: rat)"
proof -
  define q where "q = n div d"
  define r where "r = n mod d"
  have n: "n = q * d + r" by (simp add: q_def r_def)
  have r: "0 \<le> r" "r < d" using assms by (simp_all add: r_def)
  have dpos: "(0::rat) < of_int d" using assms by simp
  have frac: "of_int n / of_int d = (of_int q :: rat) + of_int r / of_int d"
    using dpos by (simp add: n field_simps)
  have lo: "(0::rat) \<le> of_int r / of_int d" using r dpos by simp
  have hi: "of_int r / of_int d < (1::rat)" using r dpos by simp
  consider "2 * r < d" | "d < 2 * r" | "2 * r = d" by linarith
  then show ?thesis
  proof cases
    case 1
    then have "(of_int r :: rat) * 2 < of_int d"
      by (metis mult.commute of_int_less_iff of_int_mult of_int_numeral)
    then have "of_int r / of_int d < (1 / 2 :: rat)" using dpos by (simp add: field_simps)
    moreover have "round_half_even n d = q" using 1 by (simp add: round_half_even_def q_def r_def)
    ultimately show ?thesis using lo by (simp add: frac)
  next
    case 2
    then have "(of_int d :: rat) < of_int r * 2"
      by (metis mult.commute of_int_less_iff of_int_mult of_int_numeral)
    then have "(1 / 2 :: rat) < of_int r / of_int d" using dpos by (simp add: field_simps)
    moreover have "round_half_even n d = q + 1" using 2 by (simp add: round_half_even_def q_def r_def)
    ultimately show ?thesis using hi by (simp add: frac)
  next
    case 3
    then have "(of_int r :: rat) * 2 = of_int d"
      by (metis mult.commute of_int_mult of_int_numeral)
    then have h: "of_int r / of_int d = (1 / 2 :: rat)" using dpos by (simp add: field_simps)
    have "round_half_even n d = q \<or> round_half_even n d = q + 1"
      using 3 by (simp add: round_half_even_def q_def r_def Let_def)
    then show ?thesis unfolding frac h by auto
  qed
qed

lemma py_round_tenths_close:
  "\<bar>of_int (py_round_tenths x) / 10 - double_value x\<bar> \<le> (1 / 20 :: rat)"
proof (cases "0 \<le> snd x")
  case True
  then show ?thesis by (simp add: py_round_tenths_def double_value_def pow2_def)
next
  case False
  define D where "D = (2::int) ^ nat (- snd x)"
  have D: "0 < D" by (simp add: D_def)
  have v: "double_value x = of_int (fst x) / of_int D"
    using False by (simp add: double_value_def pow2_def D_def)
  have k: "py_round_tenths x = round_half_even (10 * fst x) D"
    using False by (simp add: py_round_tenths_def D_def)
  have "\<bar>of_int (round_half_even (10 * fst x) D) - of_int (10 * fst x) / of_int D\<bar> \<le> (1 / 2 :: rat)"
    using round_half_even_close[OF D] .
  then have "\<bar>(of_int (round_half_even (10 * fst x) D) - 10 * (of_int (fst x) / of_int D)) / 10\<bar>
      \<le> (1 / 20 :: rat)"
    by simp
  then show ?thesis by (simp add: v k diff_divide_distrib)
qed

lemma ex_third_div: "py_truediv 1 3 = (6004799503160661, - 54)"
  by (simp add: py_truediv_def nearest_double_def bit_length.simps round_half_even_def Let_def)

lemma ex_third_div_Suc: "py_truediv (Suc 0) 3 = (6004799503160661, - 54)"
  using ex_third_div by simp

lemma ex_third_mul: "py_mul_int (6004799503160661, - 54) 100 = (4691249611844266, - 47)"
  by (simp add: py_mul_int_def nearest_double_def bit_length.simps round_half_even_def Let_def)

lemma ex_third_round: "py_round_tenths (4691249611844266, - 47) = 333"
  by (simp add: py_round_tenths_def round_half_even_def Let_def)


text \<open>
  A tie that only the floats see: one answer to 2000 messages is 0.05 per cent, half way
  between 0.0 and 0.1; the float product lies just above it and the rate is 0.1.
\<close>

lemma ex_tie_follows_floats:
  "py_round_tenths (py_mul_int (py_truediv 1 2000) 100) = 1
   \<and> round_half_even (10 * 100 * 1) 2000 = 0"
  by (simp add: py_truediv_def py_mul_int_def py_round_tenths_def nearest_double_def
      bit_length.simps round_half_even_def Let_def)

lemma ex_third_counts:
  "length (filter m_send_success (messages db_third)) = 3"
  "length (filter m_response_received (messages db_third)) = 1"
  by (simp_all add: db_third_def message_to_def)

lemma ex_third_rate: "response_rate (get_summary_stats db_third) = 333 / 10"
  by (simp add: get_summary_stats_def ex_third_counts Let_def)
     (simp add: ex_third_div_Suc ex_third_mul ex_third_round)

text \<open>
  One answer to three messages: the rate reported is 33.3, which is neither the quotient
  as a percentage nor the float that \<^verbatim>\<open>1 / 3 * 100\<close> gives.
\<close>

theorem response_rate_exact_counterexample:
  "total_dms_sent (get_summary_stats db_third) = 3
   \<and> responses_received (get_summary_stats db_third) = 1
   \<and> response_rate (get_summary_stats db_third) = 333 / 10
   \<and> response_rate (get_summary_stats db_third)
       \<noteq> of_nat (responses_received (get_summary_stats db_third))
           / of_nat (total_dms_sent (get_summary_stats db_third)) * 100
   \<and> response_rate (get_summary_stats db_third)
       \<noteq> double_value (py_mul_int (py_truediv 1 3) 100)"
proof -
  have c: "total_dms_sent (get_summary_stats db_third) = 3"
      "responses_received (get_summary_stats db_third) = 1"
    by (simp_all add: get_summary_stats_def ex_third_counts Let_def)
  have v: "double_value (py_mul_int (py_truediv (Suc 0) 3) 100) = 4691249611844266 / 2 ^ 47"
    by (simp add: ex_third_div_Suc ex_third_mul double_value_def pow2_def)
  show ?thesis
    by (simp add: c ex_third_rate v)
qed

text \<open>
  Claim C9, as the code has it. The summary counts the messages that went out and the
  messages that were answered. With no message sent the response rate is 0. Otherwise it
  is the percentage \<^verbatim>\<open>responses / sent * 100\<close>, computed in floats and rounded to one
  decimal place: a whole number of tenths, at most one twentieth away from the float
  product.
\<close>

theorem response_rate_guarded:
  "total_dms_sent (get_summary_stats d) = length (filter m_send_success (messages d))
   \<and> responses_received (get_summary_stats d) = length (filter m_response_received (messages d))
   \<and> (total_dms_sent (get_summary_stats d) = 0 \<longrightarrow> response_rate (get_summary_stats d) = 0)
   \<and> (0 < total_dms_sent (get_summary_stats d) \<longrightarrow>
         response_rate (get_summary_stats d)
           = of_int (py_round_tenths (py_mul_int
               (py_truediv (responses_received (get_summary_stats d))
                  (total_dms_sent (get_summary_stats d))) 100)) / 10
         \<and> \<bar>response_rate (get_summary_stats d)
              - double_value (py_mul_int
                  (py_truediv (responses_received (get_summary_stats d))
                     (total_dms_sent (get_summary_stats d))) 100)\<bar> \<le> 1 / 20)"
  using py_round_tenths_close
  by (simp add: get_summary_stats_def Let_def)

theorem response_rate_guarded_witness:
  "total_dms_sent (get_summary_stats db_empty) = 0
   \<and> response_rate (get_summary_stats db_empty) = 0
   \<and> 0 < total_dms_sent (get_summary_stats db_third)
   \<and> response_rate (get_summary_stats db_third) = 333 / 10
   \<and> \<bar>response_rate (get_summary_stats db_third)
        - double_value (py_mul_int (py_truediv 1 3) 100)\<bar> \<le> 1 / 20"
proof -
  have e: "messages db_empty = []" by (simp add: db_empty_def)
  note z = response_rate_guarded[of db_empty]
  from z e have z0: "total_dms_sent (get_summary_stats db_empty) = 0" by simp
  with z have z1: "response_rate (get_summary_stats db_empty) = 0" by blast
  note t = response_rate_guarded[of db_third]
  from t have c: "total_dms_sent (get_summary_stats db_third) = 3"
      "responses_received (get_summary_stats db_third) = 1"
    by (simp_all add: ex_third_counts)
  then have pos: "0 < total_dms_sent (get_summary_stats db_third)" by simp
  with t have r: "response_rate (get_summary_stats db_third)
           = of_int (py_round_tenths (py_mul_int
               (py_truediv (responses_received (get_summary_stats db_third))
                  (total_dms_sent (get_summary_stats db_third))) 100)) / 10"
    and b: "\<bar>response_rate (get_summary_stats db_third)
              - double_value (py_mul_int
                  (py_truediv (responses_received (get_summary_stats db_third))
                     (total_dms_sent (get_summary_stats db_third))) 100)\<bar> \<le> 1 / 20"
    by blast+
  have r3: "response_rate (get_summary_stats db_third) = 333 / 10"
    using r by (simp add: c ex_third_div_Suc ex_third_mul ex_third_round)
  have b3: "\<bar>response_rate (get_summary_stats db_third)
        - double_value (py_mul_int (py_truediv 1 3) 100)\<bar> \<le> 1 / 20"
    using b by (simp add: c)
  show ?thesis using z0 z1 pos r3 b3 by simp
qed

section \<open>Properties of the automator\<close>

subsection \<open>The sliding window\<close>

lemma fold_min_oldest: "\<forall>t \<in> set rest. (t1::int) \<le> t \<Longrightarrow> fold min rest t1 = t1"
  by (induction rest) (auto simp: min_def)

lemma filter_window_all:
  "\<forall>t \<in> set ts. lo < (t::int) \<Longrightarrow> filter (\<lambda>t. lo < t) ts = ts"
  by (induction ts) simp_all

lemma length_filter_drop_first:
  "\<not> lo < (t1::int) \<Longrightarrow> length (filter (\<lambda>t. lo < t) (t1 # rest)) < length (t1 # rest)"
  by (simp add: le_imp_less_Suc)

lemma can_join_denied:
  assumes "join_times a = t1 # rest" "\<forall>t \<in> set rest. t1 \<le> t"
    and "int (length (t1 # rest)) = max_joins_per_hour a" "now < t1 + one_hour"
  shows "can_join now a = (Inr (False, (t1 + one_hour - now) div 1000000), a)"
proof -
  have all: "\<forall>t \<in> set (t1 # rest). now - one_hour < t" using assms(2,4) by auto
  have keep: "filter (\<lambda>t. now - one_hour < t) (t1 # rest) = t1 # rest"
    using filter_window_all[OF all] .
  have same: "a\<lparr>join_times := t1 # rest\<rparr> = a"
    using assms(1) by simp
  have pos: "0 \<le> t1 + one_hour - now" using assms(4) by simp
  then have nonneg: "0 \<le> (t1 + one_hour - now) div 1000000" by simp
  show ?thesis
    using assms(1,3) fold_min_oldest[OF assms(2)] pos nonneg
    by (simp add: can_join_def Let_def keep same total_seconds_int_def del: filter.simps)
qed

lemma can_join_allowed:
  assumes "join_times a = t1 # rest"
    and "int (length (t1 # rest)) = max_joins_per_hour a" "t1 + one_hour \<le> now"
  shows "fst (can_join now a) = Inr (True, 0) \<and> t1 \<notin> set (join_times (snd (can_join now a)))"
proof -
  have "\<not> now - one_hour < t1" using assms(3) by simp
  from length_filter_drop_first[OF this, of rest]
  have "int (length (filter (\<lambda>t. now - one_hour < t) (join_times a))) < max_joins_per_hour a"
    using assms(1,2) by simp
  then show ?thesis using assms(3)
    by (auto simp: can_join_def Let_def)
qed

lemma can_dm_denied:
  assumes "dm_times a = t1 # rest" "\<forall>t \<in> set rest. t1 \<le> t"
    and "int (length (t1 # rest)) = max_dms_per_hour a" "now < t1 + one_hour"
  shows "can_dm now a = (Inr (False, (t1 + one_hour - now) div 1000000), a)"
proof -
  have all: "\<forall>t \<in> set (t1 # rest). now - one_hour < t" using assms(2,4) by auto
  have keep: "filter (\<lambda>t. now - one_hour < t) (t1 # rest) = t1 # rest"
    using filter_window_all[OF all] .
  have same: "a\<lparr>dm_times := t1 # rest\<rparr> = a"
    using assms(1) by simp
  have pos: "0 \<le> t1 + one_hour - now" using assms(4) by simp
  then have nonneg: "0 \<le> (t1 + one_hour - now) div 1000000" by simp
  show ?thesis
    using assms(1,3) fold_min_oldest[OF assms(2)] pos nonneg
    by (simp add: can_dm_def Let_def keep same total_seconds_int_def del: filter.simps)
qed

lemma can_dm_allowed:
  assumes "dm_times a = t1 # rest"
    and "int (length (t1 # rest)) = max_dms_per_hour a" "t1 + one_hour \<le> now"
  shows "fst (can_dm now a) = Inr (True, 0) \<and> t1 \<notin> set (dm_times (snd (can_dm now a)))"
proof -
  have "\<not> now - one_hour < t1" using assms(3) by simp
  from length_filter_drop_first[OF this, of rest]
  have "int (length (filter (\<lambda>t. now - one_hour < t) (dm_times a))) < max_dms_per_hour a"
    using assms(1,2) by simp
  then show ?thesis using assms(3)
    by (auto simp: can_dm_def Let_def)
qed

text \<open>
  A ceiling of 0 with an empty window has no oldest entry: the check raises
  \<^verbatim>\<open>ValueError\<close> from \<^verbatim>\<open>min\<close> instead of denying.
\<close>

lemma can_join_zero_ceiling_raises:
  "max_joins_per_hour a \<le> 0 \<Longrightarrow> join_times a = [] \<Longrightarrow> fst (can_join now a) = Inl ValueError"
  by (simp add: can_join_def Let_def)

text \<open>
  Claim C2. For each action class, when the window holds as many entries as the hourly
  ceiling allows and the first of them is the oldest: a check less than 60 minutes after
  the first entry is denied, its wait is the whole seconds left until the first entry is
  60 minutes old, and the window stays as it is; a check 60 minutes or more after the
  first entry is allowed with wait 0, and the first entry is gone from the window.
\<close>

theorem rate_limiter_window:
  "(join_times a = t1 # rest \<and> (\<forall>t \<in> set rest. t1 \<le> t)
      \<and> int (length (t1 # rest)) = max_joins_per_hour a \<longrightarrow>
      (now < t1 + one_hour \<longrightarrow>
         can_join now a = (Inr (False, (t1 + one_hour - now) div 1000000), a))
      \<and> (t1 + one_hour \<le> now \<longrightarrow>
         fst (can_join now a) = Inr (True, 0) \<and> t1 \<notin> set (join_times (snd (can_join now a)))))
   \<and> (dm_times a = u1 # rest' \<and> (\<forall>t \<in> set rest'. u1 \<le> t)
      \<and> int (length (u1 # rest')) = max_dms_per_hour a \<longrightarrow>
      (now < u1 + one_hour \<longrightarrow>
         can_dm now a = (Inr (False, (u1 + one_hour - now) div 1000000), a))
      \<and> (u1 + one_hour \<le> now \<longrightarrow>
         fst (can_dm now a) = Inr (True, 0) \<and> u1 \<notin> set (dm_times (snd (can_dm now a)))))"
  using can_join_denied[of a t1 rest now] can_join_allowed[of a t1 rest now]
    can_dm_denied[of a u1 rest' now] can_dm_allowed[of a u1 rest' now]
  by blast

theorem rate_limiter_window_witness:
  "join_times automator_full = [0, 60000000]
   \<and> int (length (join_times automator_full)) = max_joins_per_hour automator_full
   \<and> can_join 1800500000 automator_full = (Inr (False, 1799), automator_full)
   \<and> fst (can_join 3600000000 automator_full) = Inr (True, 0)
   \<and> 0 \<notin> set (join_times (snd (can_join 3600000000 automator_full)))
   \<and> dm_times automator_full = [120000000]
   \<and> int (length (dm_times automator_full)) = max_dms_per_hour automator_full
   \<and> can_dm 1800500000 automator_full = (Inr (False, 1919), automator_full)
   \<and> fst (can_dm 3720000000 automator_full) = Inr (True, 0)
   \<and> 120000000 \<notin> set (dm_times (snd (can_dm 3720000000 automator_full)))"
proof -
  have j: "join_times automator_full = [0, 60000000]"
    and jn: "int (length (join_times automator_full)) = max_joins_per_hour automator_full"
    and d: "dm_times automator_full = [120000000]"
    and dn: "int (length (dm_times automator_full)) = max_dms_per_hour automator_full"
    by (simp_all add: automator_full_def)
  have hj: "join_times automator_full = 0 # [60000000] \<and> (\<forall>t \<in> set [60000000::int]. 0 \<le> t)
      \<and> int (length (0 # [60000000::int])) = max_joins_per_hour automator_full"
    using j jn by simp
  have hd: "dm_times automator_full = 120000000 # [] \<and> (\<forall>t \<in> set ([]::int list). 120000000 \<le> t)
      \<and> int (length (120000000 # ([]::int list))) = max_dms_per_hour automator_full"
    using d dn by simp
  note early = rate_limiter_window[of automator_full 0 "[60000000]" 1800500000 120000000 "[]"]
  note late = rate_limiter_window[of automator_full 0 "[60000000]" 3600000000 120000000 "[]"]
  note later = rate_limiter_window[of automator_full 0 "[60000000]" 3720000000 120000000 "[]"]
  have a1: "can_join 1800500000 automator_full = (Inr (False, 1799), automator_full)"
    using early hj by (simp add: one_hour_def)
  have a2: "fst (can_join 3600000000 automator_full) = Inr (True, 0)
      \<and> 0 \<notin> set (join_times (snd (can_join 3600000000 automator_full)))"
    using late hj by (simp add: one_hour_def)
  have b1: "can_dm 1800500000 automator_full = (Inr (False, 1919), automator_full)"
    using early hd by (simp add: one_hour_def)
  have b2: "fst (can_dm 3720000000 automator_full) = Inr (True, 0)
      \<and> 120000000 \<notin> set (dm_times (snd (can_dm 3720000000 automator_full)))"
    using later hd by (simp add: one_hour_def)
  show ?thesis using j jn d dn a1 a2 b1 b2 by simp
qed


subsection \<open>Joining as a member already\<close>

lemma extract_example: "extract_username ''https://t.me/alphagroup'' = Some ''alphagroup''"
  by (simp add: extract_username_def starts_with_def is_word_char_def lower_char_def)


text \<open>
  Claim C10. When the handle resolves, the rate check passes and the entity is a group:
  if the membership probe returns, \<^verbatim>\<open>join_group\<close> answers success with no error and the
  automator is as the rate check left it (the window without its stale entries, nothing
  appended, the counter and the sleeps as before); if the probe fails and the join request
  goes through, the join time is appended to the window, \<open>groups_joined\<close> grows by 1 and
  one sleep of \<open>join_delay\<close> seconds is made before the same answer.
\<close>

theorem join_group_member_no_budget:
  assumes "extract_username url = Some u"
    and "int (length (filter (\<lambda>t. jw_now w - one_hour < t) (join_times a))) < max_joins_per_hour a"
    and "jw_get_entity w = Inr True"
  shows "(jw_get_participants w \<longrightarrow>
           join_group w url a =
             (Inr (True, None), a\<lparr>join_times := filter (\<lambda>t. jw_now w - one_hour < t) (join_times a)\<rparr>))
       \<and> (\<not> jw_get_participants w \<and> jw_join_request w = None \<longrightarrow>
           join_group w url a =
             (Inr (True, None),
              a\<lparr>join_times := filter (\<lambda>t. jw_now w - one_hour < t) (join_times a) @ [jw_now_joined w],
                stat_groups_joined := stat_groups_joined a + 1,
                slept := slept a @ [join_delay a]\<rparr>))"
  using assms by (simp add: join_group_def can_join_def Let_def)

theorem join_group_member_no_budget_witness:
  "extract_username ''https://t.me/alphagroup'' = Some ''alphagroup''
   \<and> join_group world_member ''https://t.me/alphagroup'' automator_fresh
       = (Inr (True, None), automator_fresh)
   \<and> join_group world_new_join ''https://t.me/alphagroup'' automator_fresh
       = (Inr (True, None),
          automator_fresh\<lparr>join_times := [6000000], stat_groups_joined := 1, slept := [30]\<rparr>)"
proof -
  have f: "filter (\<lambda>t. 5000000 - one_hour < t) (join_times automator_fresh) = []"
    and s: "automator_fresh\<lparr>join_times := []\<rparr> = automator_fresh"
    and v: "stat_groups_joined automator_fresh = 0" "slept automator_fresh = []"
      "join_delay automator_fresh = 30" "max_joins_per_hour automator_fresh = 10"
    by (simp_all add: automator_fresh_def)
  have wm: "jw_now world_member = 5000000" "jw_get_entity world_member = Inr True"
      "jw_get_participants world_member"
    by (simp_all add: world_member_def)
  have wn: "jw_now world_new_join = 5000000" "jw_get_entity world_new_join = Inr True"
      "\<not> jw_get_participants world_new_join" "jw_join_request world_new_join = None"
      "jw_now_joined world_new_join = 6000000"
    by (simp_all add: world_new_join_def)
  have m: "join_group world_member ''https://t.me/alphagroup'' automator_fresh
       = (Inr (True, None), automator_fresh)"
    using join_group_member_no_budget[of "''https://t.me/alphagroup''" "''alphagroup''"
        world_member automator_fresh] extract_example
    by (simp add: wm f s v)
  have n: "join_group world_new_join ''https://t.me/alphagroup'' automator_fresh
       = (Inr (True, None),
          automator_fresh\<lparr>join_times := [6000000], stat_groups_joined := 1, slept := [30]\<rparr>)"
    using join_group_member_no_budget[of "''https://t.me/alphagroup''" "''alphagroup''"
        world_new_join automator_fresh] extract_example
    by (simp add: wn f s v)
  show ?thesis using extract_example m n by simp
qed

subsection \<open>Filling the template\<close>

lemma py_replace_absent: "\<not> contains old s \<Longrightarrow> py_replace old new s = s"
  by (induction old new s rule: py_replace.induct) auto

lemma py_replace_plain:
  assumes "CHR ''{'' \<notin> set t"
  shows "py_replace (CHR ''{'' # P) new (t @ rest) = t @ py_replace (CHR ''{'' # P) new rest"
  using assms by (induction t) (auto simp: starts_with_def)

lemma py_replace_here:
  "py_replace (c # P) new ((c # P) @ rest) = new @ py_replace (c # P) new rest"
  by (simp add: starts_with_def)

lemma py_replace_other:
  assumes "CHR ''{'' \<notin> set Q" "\<not> starts_with (CHR ''{'' # P) (CHR ''{'' # Q @ rest)"
  shows "py_replace (CHR ''{'' # P) new ((CHR ''{'' # Q) @ rest)
           = (CHR ''{'' # Q) @ py_replace (CHR ''{'' # P) new rest"
  using assms py_replace_plain[of Q P new rest] by simp

lemma py_replace_segments:
  assumes "P = c # P'"
    and "\<forall>seg \<in> set segs. (seg = k \<and> \<sigma> seg = P) \<or> (seg \<noteq> k \<and> inert P new (\<sigma> seg))"
  shows "py_replace P new (concat (map \<sigma> segs) @ rest)
           = concat (map (\<lambda>s. if s = k then new else \<sigma> s) segs) @ py_replace P new rest"
  using assms(2)
proof (induction segs)
  case Nil
  then show ?case by simp
next
  case (Cons seg segs)
  then have ih: "py_replace P new (concat (map \<sigma> segs) @ rest)
           = concat (map (\<lambda>s. if s = k then new else \<sigma> s) segs) @ py_replace P new rest"
    by simp
  from Cons.prems consider "seg = k" "\<sigma> seg = P" | "seg \<noteq> k" "inert P new (\<sigma> seg)"
    by auto
  then show ?case
  proof cases
    case 1
    then show ?thesis
      using py_replace_here[of c P' new "concat (map \<sigma> segs) @ rest"] ih assms(1) by simp
  next
    case 2
    then show ?thesis using ih by (simp add: inert_def)
  qed
qed

lemma inert_plain: "CHR ''{'' \<notin> set t \<Longrightarrow> inert (CHR ''{'' # P) new t"
  by (simp add: inert_def py_replace_plain)

lemma inert_greeting_for_name: "inert ''{project_name}'' new ''{admin_name_greeting}''"
  unfolding inert_def
proof
  fix rest
  show "py_replace ''{project_name}'' new (''{admin_name_greeting}'' @ rest)
      = ''{admin_name_greeting}'' @ py_replace ''{project_name}'' new rest"
    using py_replace_other[of "''admin_name_greeting}''" "''project_name}''" rest new]
    by (simp add: starts_with_def)
qed

lemma inert_symbol_for_greeting: "inert ''{admin_name_greeting}'' new ''{token_symbol}''"
  unfolding inert_def
proof
  fix rest
  show "py_replace ''{admin_name_greeting}'' new (''{token_symbol}'' @ rest)
      = ''{token_symbol}'' @ py_replace ''{admin_name_greeting}'' new rest"
    using py_replace_other[of "''token_symbol}''" "''admin_name_greeting}''" rest new]
    by (simp add: starts_with_def)
qed

lemma inert_name_for_greeting: "inert ''{admin_name_greeting}'' new ''{project_name}''"
  unfolding inert_def
proof
  fix rest
  show "py_replace ''{admin_name_greeting}'' new (''{project_name}'' @ rest)
      = ''{project_name}'' @ py_replace ''{admin_name_greeting}'' new rest"
    using py_replace_other[of "''project_name}''" "''admin_name_greeting}''" rest new]
    by (simp add: starts_with_def)
qed

lemma inert_symbol_for_name: "inert ''{project_name}'' new ''{token_symbol}''"
  unfolding inert_def
proof
  fix rest
  show "py_replace ''{project_name}'' new (''{token_symbol}'' @ rest)
      = ''{token_symbol}'' @ py_replace ''{project_name}'' new rest"
    using py_replace_other[of "''token_symbol}''" "''project_name}''" rest new]
    by (simp add: starts_with_def)
qed

lemma snd_can_dm_sent: "can_dm now a = (r, a') \<Longrightarrow> sent a' = sent a"
  by (auto simp: can_dm_def Let_def split: if_splits sum.splits)

lemma greeting_pass:
  assumes "\<forall>seg \<in> set segs. plain_segment seg"
  shows "py_replace ''{admin_name_greeting}'' [] (template_text segs)
           = concat (map (\<lambda>s. if s = Greeting then [] else placeholder s) segs)"
proof -
  have "\<forall>seg \<in> set segs. (seg = Greeting \<and> placeholder seg = ''{admin_name_greeting}'')
          \<or> (seg \<noteq> Greeting \<and> inert ''{admin_name_greeting}'' [] (placeholder seg))"
  proof
    fix seg assume "seg \<in> set segs"
    with assms have "plain_segment seg" by blast
    then show "(seg = Greeting \<and> placeholder seg = ''{admin_name_greeting}'')
          \<or> (seg \<noteq> Greeting \<and> inert ''{admin_name_greeting}'' [] (placeholder seg))"
      by (cases seg) (simp_all add: inert_plain inert_name_for_greeting inert_symbol_for_greeting)
  qed
  from py_replace_segments[OF refl this, of "[]"] show ?thesis
    by (simp add: template_text_def)
qed

lemma name_pass:
  assumes "\<forall>seg \<in> set segs. plain_segment seg"
  shows "py_replace ''{project_name}'' name
           (concat (map (\<lambda>s. if s = Greeting then [] else placeholder s) segs))
         = concat (map (\<lambda>s. if s = Project_name then name
                             else if s = Greeting then [] else placeholder s) segs)"
proof -
  let ?\<sigma> = "\<lambda>s. if s = Greeting then [] else placeholder s"
  have "\<forall>seg \<in> set segs. (seg = Project_name \<and> ?\<sigma> seg = ''{project_name}'')
          \<or> (seg \<noteq> Project_name \<and> inert ''{project_name}'' name (?\<sigma> seg))"
  proof
    fix seg assume "seg \<in> set segs"
    with assms have "plain_segment seg" by blast
    then show "(seg = Project_name \<and> ?\<sigma> seg = ''{project_name}'')
          \<or> (seg \<noteq> Project_name \<and> inert ''{project_name}'' name (?\<sigma> seg))"
      by (cases seg) (simp_all add: inert_plain inert_symbol_for_name)
  qed
  from py_replace_segments[OF refl this, of "[]"] show ?thesis by simp
qed

lemma symbol_pass:
  assumes "\<forall>seg \<in> set segs. plain_segment seg" "CHR ''{'' \<notin> set name"
  shows "py_replace ''{token_symbol}'' symbol
           (concat (map (\<lambda>s. if s = Project_name then name
                             else if s = Greeting then [] else placeholder s) segs))
         = filled name symbol segs"
proof -
  let ?\<sigma> = "\<lambda>s. if s = Project_name then name else if s = Greeting then [] else placeholder s"
  have "\<forall>seg \<in> set segs. (seg = Token_symbol \<and> ?\<sigma> seg = ''{token_symbol}'')
          \<or> (seg \<noteq> Token_symbol \<and> inert ''{token_symbol}'' symbol (?\<sigma> seg))"
  proof
    fix seg assume "seg \<in> set segs"
    with assms have "plain_segment seg" by blast
    then show "(seg = Token_symbol \<and> ?\<sigma> seg = ''{token_symbol}'')
          \<or> (seg \<noteq> Token_symbol \<and> inert ''{token_symbol}'' symbol (?\<sigma> seg))"
      using assms(2) by (cases seg) (simp_all add: inert_plain)
  qed
  from py_replace_segments[OF refl this, of "[]"]
  have "py_replace ''{token_symbol}'' symbol (concat (map ?\<sigma> segs))
      = concat (map (\<lambda>s. if s = Token_symbol then symbol else ?\<sigma> s) segs)"
    by simp
  moreover have "(\<lambda>s. if s = Token_symbol then symbol else ?\<sigma> s) = fill_segment name symbol"
  proof
    fix s show "(if s = Token_symbol then symbol else ?\<sigma> s) = fill_segment name symbol s"
      by (cases s) simp_all
  qed
  ultimately show ?thesis by (simp add: filled_def)
qed

lemma personalize_passes:
  assumes "name \<noteq> []" "symbol \<noteq> []"
  shows "personalize message (Some name) (Some symbol)
           = py_replace ''{token_symbol}'' symbol
               (py_replace ''{project_name}'' name
                  (py_replace ''{admin_name_greeting}'' [] message))"
  using assms py_replace_absent[of "''{admin_name_greeting}''" message "[]"]
  by (simp add: personalize_def Let_def)


lemma can_dm_fresh: "can_dm (dw_now world_dm_ok) automator_fresh = (Inr (True, 0), automator_fresh)"
  by (simp add: can_dm_def world_dm_ok_def automator_fresh_def Let_def)


text \<open>
  A template written with \<open>{name}\<close> and \<open>{symbol}\<close>: \<open>send_dm\<close> does not know these
  two, and the text goes out as it stands.
\<close>

theorem placeholder_name_symbol_counterexample:
  "personalize ''Hi {name}, about {symbol}'' (Some ''Alpha'') (Some ''ALP'')
     = ''Hi {name}, about {symbol}''
   \<and> sent (snd (send_dm world_dm_ok ''alice'' ''Hi {name}, about {symbol}''
                  (Some ''Alpha'') (Some ''ALP'') automator_fresh))
     = [(''alice'', ''Hi {name}, about {symbol}'')]"
proof -
  have p: "personalize ''Hi {name}, about {symbol}'' (Some ''Alpha'') (Some ''ALP'')
     = ''Hi {name}, about {symbol}''"
    by (simp add: personalize_def starts_with_def Let_def)
  have s: "sent automator_fresh = []" "dw_send world_dm_ok = None"
    by (simp_all add: automator_fresh_def world_dm_ok_def)
  show ?thesis
    by (simp add: send_dm_def can_dm_fresh p s Let_def)
qed


text \<open>
  Claim C8, as the code has it. The placeholders of \<open>send_dm\<close> are
  \<open>{admin_name_greeting}\<close>, \<open>{project_name}\<close> and \<open>{token_symbol}\<close>. For a template
  whose literal text has no opening brace, and a project with a name (without an opening
  brace) and a symbol, the personalised text is the template with every greeting
  placeholder dropped, every \<open>{project_name}\<close> replaced by the name and every
  \<open>{token_symbol}\<close> by the symbol; and a send that passes the rate check and goes out hands
  exactly this text to the client.
\<close>

theorem personalize_fills_placeholders:
  assumes "\<forall>seg \<in> set segs. plain_segment seg"
    and "name \<noteq> []" "CHR ''{'' \<notin> set name" "symbol \<noteq> []"
  shows "personalize (template_text segs) (Some name) (Some symbol) = filled name symbol segs
       \<and> (fst (can_dm (dw_now w) a) = Inr (True, 0) \<and> dw_send w = None \<longrightarrow>
            sent (snd (send_dm w username (template_text segs) (Some name) (Some symbol) a))
              = sent a @ [(username, filled name symbol segs)])"
proof -
  have p: "personalize (template_text segs) (Some name) (Some symbol) = filled name symbol segs"
    using personalize_passes[OF assms(2,4)] greeting_pass[OF assms(1)] name_pass[OF assms(1)]
      symbol_pass[OF assms(1,3)]
    by simp
  have "sent (snd (send_dm w username (template_text segs) (Some name) (Some symbol) a))
              = sent a @ [(username, filled name symbol segs)]"
    if "fst (can_dm (dw_now w) a) = Inr (True, 0)" "dw_send w = None"
    using that p
    by (cases "can_dm (dw_now w) a") (simp add: send_dm_def Let_def snd_can_dm_sent)
  with p show ?thesis by blast
qed

theorem personalize_fills_placeholders_witness:
  "template_text template_example = ''{admin_name_greeting}Hi {project_name} team, about ${token_symbol}''
   \<and> personalize ''{admin_name_greeting}Hi {project_name} team, about ${token_symbol}''
        (Some ''Alpha'') (Some ''ALP'') = ''Hi Alpha team, about $ALP''
   \<and> fst (can_dm (dw_now world_dm_ok) automator_fresh) = Inr (True, 0)
   \<and> sent (snd (send_dm world_dm_ok ''alice''
                  ''{admin_name_greeting}Hi {project_name} team, about ${token_symbol}''
                  (Some ''Alpha'') (Some ''ALP'') automator_fresh))
     = [(''alice'', ''Hi Alpha team, about $ALP'')]"
proof -
  have t: "template_text template_example
      = ''{admin_name_greeting}Hi {project_name} team, about ${token_symbol}''"
    by (simp add: template_text_def template_example_def)
  have f: "filled ''Alpha'' ''ALP'' template_example = ''Hi Alpha team, about $ALP''"
    by (simp add: filled_def template_example_def)
  have pl: "\<forall>seg \<in> set template_example. plain_segment seg"
    by (simp add: template_example_def)
  have s: "sent automator_fresh = []" "dw_send world_dm_ok = None"
    by (simp_all add: automator_fresh_def world_dm_ok_def)
  have c: "fst (can_dm (dw_now world_dm_ok) automator_fresh) = Inr (True, 0)"
    by (simp add: can_dm_fresh)
  note inst = personalize_fills_placeholders[OF pl, of "''Alpha''" "''ALP''" world_dm_ok
      automator_fresh "''alice''"]
  from inst have both: "personalize (template_text template_example) (Some ''Alpha'') (Some ''ALP'')
        = filled ''Alpha'' ''ALP'' template_example
      \<and> sent (snd (send_dm world_dm_ok ''alice'' (template_text template_example)
                  (Some ''Alpha'') (Some ''ALP'') automator_fresh))
        = sent automator_fresh @ [(''alice'', filled ''Alpha'' ''ALP'' template_example)]"
    using c s by simp
  show ?thesis using both t f c s by simp
qed

section \<open>Properties of the pipeline\<close>

subsection \<open>What the store operations leave alone\<close>

lemma find_id_map:
  assumes "\<And>r. p_id (f r) = p_id r"
  shows "find (\<lambda>r. p_id r = i) (map f rows) = map_option f (find (\<lambda>r. p_id r = i) rows)"
  using assms by (induction rows) simp_all

lemma status_of_increment [simp]:
  "status_of i (increment_daily_metric day m n d) = status_of i d"
  by (simp add: status_of_def)

lemma status_of_update_project_status:
  "status_of i (update_project_status clk pid st d) =
     (if pid = Some i \<and> status_of i d \<noteq> None then Some st else status_of i d)"
proof -
  let ?f = "\<lambda>r. if Some (p_id r) = pid then r\<lparr>p_status := st, p_updated_at := clk_timestamp clk\<rparr> else r"
  have id: "p_id (?f r) = p_id r" for r by simp
  have "find (\<lambda>r. p_id r = i) (map ?f (projects d)) = map_option ?f (find (\<lambda>r. p_id r = i) (projects d))"
    using find_id_map[of ?f i "projects d"] id by blast
  moreover have "find (\<lambda>r. p_id r = i) rows = Some r \<Longrightarrow> p_id r = i" for rows r
    by (induction rows) (auto split: if_splits)
  ultimately show ?thesis
    by (cases "find (\<lambda>r. p_id r = i) (projects d)")
       (auto simp: status_of_def update_project_status_def)
qed

lemma counter_on_update_project_status [simp]:
  "counter_on day m (update_project_status clk pid st d) = counter_on day m d"
  by (simp add: counter_on_def get_daily_metrics_def update_project_status_def)

lemma counter_on_tables [simp]:
  "counter_on day m (d\<lparr>projects := ps\<rparr>) = counter_on day m d"
  "counter_on day m (d\<lparr>telegram_groups := gs\<rparr>) = counter_on day m d"
  "counter_on day m (d\<lparr>admins := as\<rparr>) = counter_on day m d"
  "counter_on day m (d\<lparr>messages := ms\<rparr>) = counter_on day m d"
  by (simp_all add: counter_on_def get_daily_metrics_def)

lemma status_of_tables [simp]:
  "status_of i (d\<lparr>telegram_groups := gs\<rparr>) = status_of i d"
  "status_of i (d\<lparr>admins := as\<rparr>) = status_of i d"
  "status_of i (d\<lparr>messages := ms\<rparr>) = status_of i d"
  "status_of i (d\<lparr>daily_metrics := dms\<rparr>) = status_of i d"
  by (simp_all add: status_of_def)

lemma tables_increment [simp]:
  "telegram_groups (increment_daily_metric day m n d) = telegram_groups d"
  "admins (increment_daily_metric day m n d) = admins d"
  "messages (increment_daily_metric day m n d) = messages d"
  by (simp_all add: increment_daily_metric_def Let_def)

lemma tables_update_project_status [simp]:
  "telegram_groups (update_project_status clk pid st d) = telegram_groups d"
  "admins (update_project_status clk pid st d) = admins d"
  "messages (update_project_status clk pid st d) = messages d"
  "daily_metrics (update_project_status clk pid st d) = daily_metrics d"
  "map p_id (projects (update_project_status clk pid st d)) = map p_id (projects d)"
  by (simp_all add: update_project_status_def comp_def)

lemma status_of_add_telegram_group:
  "status_of i (snd (add_telegram_group clk pid url joined err d)) =
     (if joined \<and> \<not> group_conflict pid url d \<and> pid = Some i \<and> status_of i d \<noteq> None
      then Some ''joined'' else status_of i d)"
  by (simp add: add_telegram_group_def Let_def status_of_update_project_status)

lemma status_of_add_message:
  "status_of i (snd (add_message clk pid aid text tmpl success err d)) =
     (if success \<and> pid = Some i \<and> status_of i d \<noteq> None
      then Some ''contacted'' else status_of i d)"
  by (simp add: add_message_def Let_def status_of_update_project_status)

lemma status_of_add_admin [simp]:
  "status_of i (snd (add_admin clk pid gid u uid fn ow d)) = status_of i d"
  by (simp add: add_admin_def Let_def)

lemma status_of_record_admins [simp]:
  "status_of i (record_admins clk k pid gid xs d) = status_of i d"
  by (induction xs arbitrary: k d) simp_all

lemma ids_add_telegram_group [simp]:
  "map p_id (projects (snd (add_telegram_group clk pid url joined err d))) = map p_id (projects d)"
  by (simp add: add_telegram_group_def Let_def)

lemma ids_add_message [simp]:
  "map p_id (projects (snd (add_message clk pid aid text tmpl success err d))) = map p_id (projects d)"
  by (simp add: add_message_def Let_def)

lemma ids_add_admin [simp]:
  "map p_id (projects (snd (add_admin clk pid gid u uid fn ow d))) = map p_id (projects d)"
  by (simp add: add_admin_def Let_def)

lemma ids_record_admins [simp]:
  "map p_id (projects (record_admins clk k pid gid xs d)) = map p_id (projects d)"
  by (induction xs arbitrary: k d) simp_all

subsection \<open>A denial of the rate limiter\<close>

lemma snd_can_join: "snd (can_join now a) = a\<lparr>join_times := filter (\<lambda>t. now - one_hour < t) (join_times a)\<rparr>"
  by (simp add: can_join_def Let_def split: sum.splits)

lemma snd_can_dm: "snd (can_dm now a) = a\<lparr>dm_times := filter (\<lambda>t. now - one_hour < t) (dm_times a)\<rparr>"
  by (simp add: can_dm_def Let_def split: sum.splits)

lemma join_group_denied:
  assumes "extract_username url = Some u" "fst (can_join (jw_now jw) a) = Inr (False, wait)"
  shows "join_group jw url a =
           (Inr (False, Some (''Rate limited, wait '' @ str_int wait @ ''s'')),
            snd (can_join (jw_now jw) a))"
  using assms by (cases "can_join (jw_now jw) a") (simp add: join_group_def)

lemma send_dm_denied:
  assumes "fst (can_dm (dw_now dw) a) = Inr (False, wait)"
  shows "send_dm dw username message pn ts a =
           (Inr (False, Some (''Rate limited, wait '' @ str_int wait @ ''s'')),
            snd (can_dm (dw_now dw) a))"
  using assms by (cases "can_dm (dw_now dw) a") (simp add: send_dm_def)

lemma process_project_join_denied:
  assumes "p_telegram_url p = Some url" "url \<noteq> []" "extract_username url = Some u"
    and "fst (can_join (jw_now (pw_join w)) a) = Inr (False, wait)"
  shows "process_project w p tmpl a d =
           (Inr \<lparr>r_project_id = Some (p_id p), r_name = p_name p, r_symbol = p_symbol p,
                 r_joined = False, r_admins_found = 0, r_dm_sent = False,
                 r_error = Some (''Join failed: Rate limited, wait '' @ str_int wait @ ''s'')\<rparr>,
            snd (can_join (jw_now (pw_join w)) a),
            snd (add_telegram_group (pw_clk_group w) (Some (p_id p)) url False
                   (Some (''Rate limited, wait '' @ str_int wait @ ''s'')) d))"
  using assms(1,2) join_group_denied[OF assms(3,4)]
  by (simp add: process_project_def Let_def)

lemma add_telegram_group_failed:
  "\<not> group_conflict pid url d \<Longrightarrow>
     telegram_groups (snd (add_telegram_group clk pid url False err d)) =
       telegram_groups d @
         [\<lparr>g_id = next_rowid (map g_id (telegram_groups d)), g_project_id = pid,
           g_telegram_url = url, g_group_username = None,
           g_joined_at = Some (clk_timestamp clk), g_join_success = False,
           g_join_error = err, g_member_count = None\<rparr>]
     \<and> counter_on day Join_failures (snd (add_telegram_group clk pid url False err d)) =
         counter_on day Join_failures d + (if day = clk_today clk then 1 else 0)"
  by (simp add: add_telegram_group_def Let_def counter_on_increment)

lemma messages_add_telegram_group [simp]:
  "messages (snd (add_telegram_group clk pid url joined err d)) = messages d"
  by (simp add: add_telegram_group_def Let_def)

lemma messages_add_admin [simp]:
  "messages (snd (add_admin clk pid gid u uid fn ow d)) = messages d"
  by (simp add: add_admin_def Let_def)

lemma messages_record_admins [simp]:
  "messages (record_admins clk k pid gid xs d) = messages d"
  by (induction xs arbitrary: k d) simp_all

lemma dms_failed_add_telegram_group [simp]:
  "counter_on day Dms_failed (snd (add_telegram_group clk pid url joined err d)) =
     counter_on day Dms_failed d"
  by (simp add: add_telegram_group_def Let_def counter_on_increment)

lemma dms_failed_add_admin [simp]:
  "counter_on day Dms_failed (snd (add_admin clk pid gid u uid fn ow d)) =
     counter_on day Dms_failed d"
  by (simp add: add_admin_def Let_def counter_on_increment)

lemma dms_failed_record_admins [simp]:
  "counter_on day Dms_failed (record_admins clk k pid gid xs d) = counter_on day Dms_failed d"
  by (induction xs arbitrary: k d) simp_all

lemma add_message_failed:
  "messages (snd (add_message clk pid aid text tmpl False err d)) =
       messages d @
         [\<lparr>m_id = next_rowid (map m_id (messages d)), m_project_id = pid, m_admin_id = aid,
           m_message_text = text, m_template_used = tmpl,
           m_sent_at = Some (clk_timestamp clk), m_send_success = False, m_send_error = err,
           m_response_received = False, m_response_text = None, m_response_at = None,
           m_converted = False, m_conversion_notes = None\<rparr>]
     \<and> counter_on day Dms_failed (snd (add_message clk pid aid text tmpl False err d)) =
         counter_on day Dms_failed d + (if day = clk_today clk then 1 else 0)"
  by (simp add: add_message_def Let_def counter_on_increment)

lemma process_project_dm_denied:
  assumes "p_telegram_url p = Some url" "url \<noteq> []"
    and "join_group (pw_join w) url a = (Inr (True, None), a1)"
    and "get_group_admins (pw_admins w) url a1 = (first # others, a2)"
    and "fst (can_dm (dw_now (pw_dm w)) a2) = Inr (False, wait)"
  shows "\<exists>aid. 
          fst (process_project w p tmpl a d) =
            Inr \<lparr>r_project_id = Some (p_id p), r_name = p_name p, r_symbol = p_symbol p,
                 r_joined = True, r_admins_found = Suc (length others), r_dm_sent = False,
                 r_error = Some (''DM failed: Rate limited, wait '' @ str_int wait @ ''s'')\<rparr>
        \<and> fst (snd (process_project w p tmpl a d)) = snd (can_dm (dw_now (pw_dm w)) a2)
        \<and> messages (snd (snd (process_project w p tmpl a d))) =
            messages d @
              [\<lparr>m_id = next_rowid (map m_id (messages d)), m_project_id = Some (p_id p),
                m_admin_id = aid, m_message_text = tmpl, m_template_used = Some ''default'',
                m_sent_at = Some (clk_timestamp (pw_clk_message w)), m_send_success = False,
                m_send_error = Some (''Rate limited, wait '' @ str_int wait @ ''s''),
                m_response_received = False, m_response_text = None, m_response_at = None,
                m_converted = False, m_conversion_notes = None\<rparr>]
        \<and> (\<forall>day. counter_on day Dms_failed (snd (snd (process_project w p tmpl a d))) =
              counter_on day Dms_failed d + (if day = clk_today (pw_clk_message w) then 1 else 0))"
proof -
  obtain gid d1 where g: "add_telegram_group (pw_clk_group w) (Some (p_id p)) url True None d = (gid, d1)"
    by (cases "add_telegram_group (pw_clk_group w) (Some (p_id p)) url True None d")
  have d1: "d1 = snd (add_telegram_group (pw_clk_group w) (Some (p_id p)) url True None d)"
    using g by simp
  define d2 where "d2 = (if truthy_id gid
      then record_admins (pw_clk_admin w) 0 (Some (p_id p)) gid (first # others) d1 else d1)"
  define target where "target = (case find ai_is_owner (first # others) of Some t \<Rightarrow> t | None \<Rightarrow> first)"
  define aid where "aid = map_option a_id
      (find (\<lambda>ua. a_username ua = ai_username target) (get_uncontacted_admins (Some (p_id p)) d2))"
  define msg where "msg = ''Rate limited, wait '' @ str_int wait @ ''s''"
  have m2: "messages d2 = messages d" and c2: "counter_on day Dms_failed d2 = counter_on day Dms_failed d" for day
    by (simp_all add: d2_def d1)
  have pp: "process_project w p tmpl a d =
      (Inr \<lparr>r_project_id = Some (p_id p), r_name = p_name p, r_symbol = p_symbol p,
                 r_joined = True, r_admins_found = Suc (length others), r_dm_sent = False,
                 r_error = Some (''DM failed: '' @ msg)\<rparr>,
       snd (can_dm (dw_now (pw_dm w)) a2),
       snd (add_message (pw_clk_message w) (Some (p_id p)) aid tmpl (Some ''default'') False (Some msg) d2))"
    using assms(1,2,3,4) g send_dm_denied[OF assms(5)]
    by (simp add: process_project_def d2_def target_def aid_def msg_def Let_def)
  show ?thesis
    using add_message_failed[of "pw_clk_message w" "Some (p_id p)" aid tmpl "Some ''default''" "Some msg" d2]
    by (intro exI[of _ aid]) (simp add: pp m2 c2 msg_def)
qed


lemma str_int_1799: "str_int 1799 = ''1799''"
  by (simp add: str_int_def str_nat.simps digit_char_def)

lemma str_int_3460: "str_int 3460 = ''3460''"
  by (simp add: str_int_def str_nat.simps digit_char_def)

lemma lead1_url: "p_telegram_url lead1 = Some ''https://t.me/alphagroup''" "p_id lead1 = 1"
  by (simp_all add: lead1_def project_row_def)

lemma join_denied_example:
  "fst (can_join (jw_now (pw_join world_join_denied)) automator_full) = Inr (False, 1799)"
  by (simp add: can_join_def world_join_denied_def automator_full_def one_hour_def
      total_seconds_int_def Let_def)

lemma no_conflict_discovered: "\<not> group_conflict pid url db_discovered"
  by (simp add: group_conflict_def db_discovered_def)

lemma counter_db_discovered: "counter_on day m db_discovered = 0"
  by (simp add: counter_on_def get_daily_metrics_def db_discovered_def)


lemma add_telegram_group_conflict:
  "group_conflict pid url d \<Longrightarrow> add_telegram_group clk pid url joined err d = (None, d)"
  by (simp add: add_telegram_group_def)


lemma join_example:
  "join_group (pw_join world_dm_denied) ''https://t.me/alphagroup'' automator_dm_full
     = (Inr (True, None), automator_dm_joined)"
  by (simp add: join_group_def extract_example can_join_def world_dm_denied_def
      automator_dm_full_def automator_dm_joined_def Let_def)

lemma admins_example:
  "get_group_admins (pw_admins world_dm_denied) ''https://t.me/alphagroup'' automator_dm_joined
     = (info_bob # [info_alice], automator_dm_joined\<lparr>stat_admins_found := 2\<rparr>)"
  by (simp add: get_group_admins_def extract_example world_dm_denied_def world_admins_def
      automator_dm_joined_def automator_dm_full_def info_bob_def info_alice_def Let_def)

lemma dm_denied_example:
  "fst (can_dm (dw_now (pw_dm world_dm_denied)) (automator_dm_joined\<lparr>stat_admins_found := 2\<rparr>))
     = Inr (False, 3460)"
  by (simp add: can_dm_def world_dm_denied_def automator_dm_joined_def automator_dm_full_def
      one_hour_def total_seconds_int_def Let_def)


text \<open>
  A denial at work. The join window of \<open>automator_full\<close> is full and the check comes half
  an hour after its first entry. The store had no group row and no failure counted; after
  \<open>process_project\<close> it holds a group row with \<open>join_success\<close> false and the text of the
  denial, and \<open>join_failures\<close> of the day is 1.
\<close>

theorem rate_limit_denial_counterexample:
  "fst (can_join (jw_now (pw_join world_join_denied)) automator_full) = Inr (False, 1799)
   \<and> fst (process_project world_join_denied lead1 ''Hi'' automator_full db_discovered)
       = Inr \<lparr>r_project_id = Some 1, r_name = Some ''Alpha'', r_symbol = Some ''ALP'',
              r_joined = False, r_admins_found = 0, r_dm_sent = False,
              r_error = Some ''Join failed: Rate limited, wait 1799s''\<rparr>
   \<and> telegram_groups db_discovered = []
   \<and> telegram_groups
        (snd (snd (process_project world_join_denied lead1 ''Hi'' automator_full db_discovered)))
       = [\<lparr>g_id = 1, g_project_id = Some 1, g_telegram_url = ''https://t.me/alphagroup'',
           g_group_username = None, g_joined_at = Some 1000, g_join_success = False,
           g_join_error = Some ''Rate limited, wait 1799s'', g_member_count = None\<rparr>]
   \<and> counter_on ''2026-01-02'' Join_failures db_discovered = 0
   \<and> counter_on ''2026-01-02'' Join_failures
        (snd (snd (process_project world_join_denied lead1 ''Hi'' automator_full db_discovered)))
       = 1"
proof -
  note pp = process_project_join_denied[OF lead1_url(1) _ extract_example join_denied_example,
      of "''Hi''" db_discovered, simplified]
  note g = add_telegram_group_failed[OF no_conflict_discovered,
      where pid = "Some 1" and url = "''https://t.me/alphagroup''" and clk = clock_day1
        and err = "Some ''Rate limited, wait 1799s''"]
  have e: "telegram_groups db_discovered = []"
    by (simp add: db_discovered_def)
  have c: "pw_clk_group world_join_denied = clock_day1"
    by (simp add: world_join_denied_def)
  have v: "clk_today clock_day1 = ''2026-01-02''" "clk_timestamp clock_day1 = 1000"
    by (simp_all add: clock_day1_def)
  have n: "next_rowid [] = 1" by (simp add: next_rowid_def)
  have l: "p_name lead1 = Some ''Alpha''" "p_symbol lead1 = Some ''ALP''"
    by (simp_all add: lead1_def project_row_def)
  show ?thesis
    using g[where day = "''2026-01-02''"]
    by (simp add: pp join_denied_example lead1_url l str_int_1799 c e v n counter_db_discovered)
qed

text \<open>
  Claim C4, as the code has it. When the rate check of the join denies, \<open>process_project\<close>
  returns at once: the error of its result is \<open>Join failed: Rate limited, wait Ns\<close>, the
  automator is as the check left it (no client call, no window entry, no sleep, no session
  failure counted). The store records the denial as it records every failed join: a
  group row with \<open>join_success\<close> false and the text of the denial, and
  \<open>join_failures\<close> of the day plus 1; only when the project has a row for the link
  already is nothing written. When the join went through, admins were found and the rate
  check of the message denies, the result carries \<open>DM failed: Rate limited, wait Ns\<close>
  and the store gets a message row with \<open>send_success\<close> false and \<open>dms_failed\<close> of the
  day plus 1.
\<close>

theorem rate_limit_denial_recorded:
  "(p_telegram_url p = Some url \<and> url \<noteq> [] \<and> extract_username url = Some u
      \<and> fst (can_join (jw_now (pw_join w)) a) = Inr (False, wait) \<longrightarrow>
      process_project w p tmpl a d =
        (Inr \<lparr>r_project_id = Some (p_id p), r_name = p_name p, r_symbol = p_symbol p,
              r_joined = False, r_admins_found = 0, r_dm_sent = False,
              r_error = Some (''Join failed: Rate limited, wait '' @ str_int wait @ ''s'')\<rparr>,
         a\<lparr>join_times := filter (\<lambda>t. jw_now (pw_join w) - one_hour < t) (join_times a)\<rparr>,
         snd (add_telegram_group (pw_clk_group w) (Some (p_id p)) url False
                (Some (''Rate limited, wait '' @ str_int wait @ ''s'')) d))
      \<and> (group_conflict (Some (p_id p)) url d \<longrightarrow>
            snd (snd (process_project w p tmpl a d)) = d)
      \<and> (\<not> group_conflict (Some (p_id p)) url d \<longrightarrow>
            telegram_groups (snd (snd (process_project w p tmpl a d))) =
              telegram_groups d @
                [\<lparr>g_id = next_rowid (map g_id (telegram_groups d)),
                  g_project_id = Some (p_id p), g_telegram_url = url, g_group_username = None,
                  g_joined_at = Some (clk_timestamp (pw_clk_group w)), g_join_success = False,
                  g_join_error = Some (''Rate limited, wait '' @ str_int wait @ ''s''),
                  g_member_count = None\<rparr>]
            \<and> (\<forall>day. counter_on day Join_failures (snd (snd (process_project w p tmpl a d))) =
                  counter_on day Join_failures d
                    + (if day = clk_today (pw_clk_group w) then 1 else 0))))
   \<and> (p_telegram_url p = Some url \<and> url \<noteq> []
      \<and> join_group (pw_join w) url a = (Inr (True, None), aj)
      \<and> get_group_admins (pw_admins w) url aj = (first # others, al)
      \<and> fst (can_dm (dw_now (pw_dm w)) al) = Inr (False, wait) \<longrightarrow>
      (\<exists>aid.
          fst (process_project w p tmpl a d) =
            Inr \<lparr>r_project_id = Some (p_id p), r_name = p_name p, r_symbol = p_symbol p,
                 r_joined = True, r_admins_found = Suc (length others), r_dm_sent = False,
                 r_error = Some (''DM failed: Rate limited, wait '' @ str_int wait @ ''s'')\<rparr>
        \<and> fst (snd (process_project w p tmpl a d)) =
            al\<lparr>dm_times := filter (\<lambda>t. dw_now (pw_dm w) - one_hour < t) (dm_times al)\<rparr>
        \<and> messages (snd (snd (process_project w p tmpl a d))) =
            messages d @
              [\<lparr>m_id = next_rowid (map m_id (messages d)), m_project_id = Some (p_id p),
                m_admin_id = aid, m_message_text = tmpl, m_template_used = Some ''default'',
                m_sent_at = Some (clk_timestamp (pw_clk_message w)), m_send_success = False,
                m_send_error = Some (''Rate limited, wait '' @ str_int wait @ ''s''),
                m_response_received = False, m_response_text = None, m_response_at = None,
                m_converted = False, m_conversion_notes = None\<rparr>]
        \<and> (\<forall>day. counter_on day Dms_failed (snd (snd (process_project w p tmpl a d))) =
              counter_on day Dms_failed d
                + (if day = clk_today (pw_clk_message w) then 1 else 0))))"
proof (intro conjI impI)
  assume h: "p_telegram_url p = Some url \<and> url \<noteq> [] \<and> extract_username url = Some u
      \<and> fst (can_join (jw_now (pw_join w)) a) = Inr (False, wait)"
  then have pp: "process_project w p tmpl a d =
        (Inr \<lparr>r_project_id = Some (p_id p), r_name = p_name p, r_symbol = p_symbol p,
              r_joined = False, r_admins_found = 0, r_dm_sent = False,
              r_error = Some (''Join failed: Rate limited, wait '' @ str_int wait @ ''s'')\<rparr>,
         snd (can_join (jw_now (pw_join w)) a),
         snd (add_telegram_group (pw_clk_group w) (Some (p_id p)) url False
                (Some (''Rate limited, wait '' @ str_int wait @ ''s'')) d))"
    using process_project_join_denied by blast
  show "process_project w p tmpl a d =
        (Inr \<lparr>r_project_id = Some (p_id p), r_name = p_name p, r_symbol = p_symbol p,
              r_joined = False, r_admins_found = 0, r_dm_sent = False,
              r_error = Some (''Join failed: Rate limited, wait '' @ str_int wait @ ''s'')\<rparr>,
         a\<lparr>join_times := filter (\<lambda>t. jw_now (pw_join w) - one_hour < t) (join_times a)\<rparr>,
         snd (add_telegram_group (pw_clk_group w) (Some (p_id p)) url False
                (Some (''Rate limited, wait '' @ str_int wait @ ''s'')) d))"
    using pp by (simp add: snd_can_join)
  {
    assume "group_conflict (Some (p_id p)) url d"
    then show "snd (snd (process_project w p tmpl a d)) = d"
      by (simp add: pp add_telegram_group_conflict)
  }
  {
    assume nc: "\<not> group_conflict (Some (p_id p)) url d"
    show "telegram_groups (snd (snd (process_project w p tmpl a d))) =
              telegram_groups d @
                [\<lparr>g_id = next_rowid (map g_id (telegram_groups d)),
                  g_project_id = Some (p_id p), g_telegram_url = url, g_group_username = None,
                  g_joined_at = Some (clk_timestamp (pw_clk_group w)), g_join_success = False,
                  g_join_error = Some (''Rate limited, wait '' @ str_int wait @ ''s''),
                  g_member_count = None\<rparr>]"
      using add_telegram_group_failed[OF nc] by (simp add: pp)
    show "\<forall>day. counter_on day Join_failures (snd (snd (process_project w p tmpl a d))) =
                  counter_on day Join_failures d
                    + (if day = clk_today (pw_clk_group w) then 1 else 0)"
      using add_telegram_group_failed[OF nc] by (simp add: pp)
  }
next
  assume h: "p_telegram_url p = Some url \<and> url \<noteq> []
      \<and> join_group (pw_join w) url a = (Inr (True, None), aj)
      \<and> get_group_admins (pw_admins w) url aj = (first # others, al)
      \<and> fst (can_dm (dw_now (pw_dm w)) al) = Inr (False, wait)"
  then show "\<exists>aid.
          fst (process_project w p tmpl a d) =
            Inr \<lparr>r_project_id = Some (p_id p), r_name = p_name p, r_symbol = p_symbol p,
                 r_joined = True, r_admins_found = Suc (length others), r_dm_sent = False,
                 r_error = Some (''DM failed: Rate limited, wait '' @ str_int wait @ ''s'')\<rparr>
        \<and> fst (snd (process_project w p tmpl a d)) =
            al\<lparr>dm_times := filter (\<lambda>t. dw_now (pw_dm w) - one_hour < t) (dm_times al)\<rparr>
        \<and> messages (snd (snd (process_project w p tmpl a d))) =
            messages d @
              [\<lparr>m_id = next_rowid (map m_id (messages d)), m_project_id = Some (p_id p),
                m_admin_id = aid, m_message_text = tmpl, m_template_used = Some ''default'',
                m_sent_at = Some (clk_timestamp (pw_clk_message w)), m_send_success = False,
                m_send_error = Some (''Rate limited, wait '' @ str_int wait @ ''s''),
                m_response_received = False, m_response_text = None, m_response_at = None,
                m_converted = False, m_conversion_notes = None\<rparr>]
        \<and> (\<forall>day. counter_on day Dms_failed (snd (snd (process_project w p tmpl a d))) =
              counter_on day Dms_failed d
                + (if day = clk_today (pw_clk_message w) then 1 else 0))"
    using process_project_dm_denied[of p url w a aj first others al wait tmpl d]
    by (simp add: snd_can_dm)
qed

theorem rate_limit_denial_recorded_witness:
  "fst (can_join (jw_now (pw_join world_join_denied)) automator_full) = Inr (False, 1799)
   \<and> fst (process_project world_join_denied lead1 ''Hi'' automator_full db_discovered)
       = Inr \<lparr>r_project_id = Some 1, r_name = Some ''Alpha'', r_symbol = Some ''ALP'',
              r_joined = False, r_admins_found = 0, r_dm_sent = False,
              r_error = Some ''Join failed: Rate limited, wait 1799s''\<rparr>
   \<and> fst (snd (process_project world_join_denied lead1 ''Hi'' automator_full db_discovered))
       = automator_full
   \<and> map g_join_success (telegram_groups
        (snd (snd (process_project world_join_denied lead1 ''Hi'' automator_full db_discovered))))
       = [False]
   \<and> fst (can_dm (dw_now (pw_dm world_dm_denied)) (automator_dm_joined\<lparr>stat_admins_found := 2\<rparr>))
       = Inr (False, 3460)
   \<and> fst (process_project world_dm_denied lead1 ''Hi'' automator_dm_full db_discovered)
       = Inr \<lparr>r_project_id = Some 1, r_name = Some ''Alpha'', r_symbol = Some ''ALP'',
              r_joined = True, r_admins_found = 2, r_dm_sent = False,
              r_error = Some ''DM failed: Rate limited, wait 3460s''\<rparr>
   \<and> map m_send_success (messages
        (snd (snd (process_project world_dm_denied lead1 ''Hi'' automator_dm_full db_discovered))))
       = [False]
   \<and> counter_on ''2026-01-02'' Dms_failed
        (snd (snd (process_project world_dm_denied lead1 ''Hi'' automator_dm_full db_discovered)))
       = 1"
proof -
  have l: "p_name lead1 = Some ''Alpha''" "p_symbol lead1 = Some ''ALP''"
    by (simp_all add: lead1_def project_row_def)
  have e: "telegram_groups db_discovered = []" "messages db_discovered = []"
    by (simp_all add: db_discovered_def)
  have v: "clk_today (pw_clk_message world_dm_denied) = ''2026-01-02''"
    by (simp add: world_dm_denied_def clock_day1_def)
  have f: "automator_full\<lparr>join_times :=
      filter (\<lambda>t. jw_now (pw_join world_join_denied) - one_hour < t) (join_times automator_full)\<rparr>
      = automator_full"
    by (simp add: automator_full_def world_join_denied_def one_hour_def)
  note j = rate_limit_denial_recorded[where p = lead1 and url = "''https://t.me/alphagroup''"
      and u = "''alphagroup''" and w = world_join_denied and a = automator_full
      and wait = 1799 and tmpl = "''Hi''" and d = db_discovered
      and aj = automator_full and al = automator_full and first = info_bob and others = "[]"]
  have jh: "p_telegram_url lead1 = Some ''https://t.me/alphagroup'' \<and> ''https://t.me/alphagroup'' \<noteq> []
      \<and> extract_username ''https://t.me/alphagroup'' = Some ''alphagroup''
      \<and> fst (can_join (jw_now (pw_join world_join_denied)) automator_full) = Inr (False, 1799)"
    using lead1_url(1) extract_example join_denied_example by simp
  note jc = j[THEN conjunct1, THEN mp, OF jh]
  note j1 = jc[THEN conjunct1]
  note jg = jc[THEN conjunct2, THEN conjunct2, THEN mp, OF no_conflict_discovered, THEN conjunct1]
  have j2: "map g_join_success (telegram_groups
        (snd (snd (process_project world_join_denied lead1 ''Hi'' automator_full db_discovered))))
       = [False]"
    by (simp add: jg e)
  note m = rate_limit_denial_recorded[where p = lead1 and url = "''https://t.me/alphagroup''"
      and w = world_dm_denied and a = automator_dm_full and aj = automator_dm_joined
      and first = info_bob and others = "[info_alice]"
      and al = "automator_dm_joined\<lparr>stat_admins_found := 2\<rparr>"
      and wait = 3460 and tmpl = "''Hi''" and d = db_discovered and u = "''alphagroup''"]
  have mh: "p_telegram_url lead1 = Some ''https://t.me/alphagroup'' \<and> ''https://t.me/alphagroup'' \<noteq> []
      \<and> join_group (pw_join world_dm_denied) ''https://t.me/alphagroup'' automator_dm_full
          = (Inr (True, None), automator_dm_joined)
      \<and> get_group_admins (pw_admins world_dm_denied) ''https://t.me/alphagroup'' automator_dm_joined
          = (info_bob # [info_alice], automator_dm_joined\<lparr>stat_admins_found := 2\<rparr>)
      \<and> fst (can_dm (dw_now (pw_dm world_dm_denied)) (automator_dm_joined\<lparr>stat_admins_found := 2\<rparr>))
          = Inr (False, 3460)"
    using lead1_url(1) join_example admins_example dm_denied_example by simp
  from m[THEN conjunct2, THEN mp, OF mh]
  obtain aid where
    m1: "fst (process_project world_dm_denied lead1 ''Hi'' automator_dm_full db_discovered) =
            Inr \<lparr>r_project_id = Some (p_id lead1), r_name = p_name lead1, r_symbol = p_symbol lead1,
                 r_joined = True, r_admins_found = Suc (length [info_alice]), r_dm_sent = False,
                 r_error = Some (''DM failed: Rate limited, wait '' @ str_int 3460 @ ''s'')\<rparr>"
    and m2: "messages (snd (snd (process_project world_dm_denied lead1 ''Hi'' automator_dm_full db_discovered))) =
            messages db_discovered @
              [\<lparr>m_id = next_rowid (map m_id (messages db_discovered)), m_project_id = Some (p_id lead1),
                m_admin_id = aid, m_message_text = ''Hi'', m_template_used = Some ''default'',
                m_sent_at = Some (clk_timestamp (pw_clk_message world_dm_denied)), m_send_success = False,
                m_send_error = Some (''Rate limited, wait '' @ str_int 3460 @ ''s''),
                m_response_received = False, m_response_text = None, m_response_at = None,
                m_converted = False, m_conversion_notes = None\<rparr>]"
    and m3: "\<And>day. counter_on day Dms_failed (snd (snd (process_project world_dm_denied lead1 ''Hi'' automator_dm_full db_discovered))) =
              counter_on day Dms_failed db_discovered
                + (if day = clk_today (pw_clk_message world_dm_denied) then 1 else 0)"
    by auto
  show ?thesis
    using join_denied_example dm_denied_example j2
    by (simp add: j1 f m1 m2 m3 l lead1_url str_int_1799 str_int_3460 e v counter_db_discovered)
qed

subsection \<open>Candidates the store knows\<close>

lemma chains_example: "chains_of_urls [''https://dexscreener.com/solana''] = [''solana'']"
  by (simp add: chains_of_urls_def chain_of_url_def starts_with_def)

text \<open>
  A candidate is dropped when the project that holds its address is still \<open>discovered\<close>
  and has a group link: then the address is in the skip set.
\<close>

lemma skip_discovered_candidate:
  "new_tokens_of (\<lambda>chain. [token_a]) [''solana''] db_discovered = Inr []"
  by (simp add: new_tokens_of_def initial_skip_addresses_def get_uncontacted_projects_def
      db_discovered_def project_row_def order_by_discovered_desc_def token_a_def)

lemma skip_contacted: "initial_skip_addresses db_contacted = []"
  by (simp add: initial_skip_addresses_def get_uncontacted_projects_def db_contacted_def
      project_row_def order_by_discovered_desc_def)


text \<open>
  Claim C6, at an input where the code departs from it. The store knows the contract
  address of the candidate, as a project contacted before; the skip set of the cycle is
  built from \<open>get_uncontacted_projects\<close> and does not hold it, so the candidate stays
  among the new tokens that go on to insertion.
\<close>

theorem scrape_cycle_keeps_known_candidate:
  "project_exists (token_address token_a) db_contacted
   \<and> new_tokens_of (\<lambda>chain. [token_a]) (chains_of_urls [''https://dexscreener.com/solana''])
        db_contacted = Inr [token_a]"
proof -
  have a: "token_address token_a = Some ''So1anaMintA''"
    by (simp add: token_address_def token_a_def)
  have b: "t_address token_a = Some (Some ''So1anaMintA'')"
    by (simp add: token_a_def)
  have e: "project_exists (Some ''So1anaMintA'') db_contacted"
    by (simp add: project_exists_def db_contacted_def project_row_def)
  have n: "new_tokens_of (\<lambda>chain. [token_a]) [''solana''] db_contacted = Inr [token_a]"
    by (simp add: new_tokens_of_def skip_contacted b)
  show ?thesis using a e n chains_example by simp
qed

subsection \<open>The order of the statuses\<close>

lemma moves_only_refl: "moves_only pid d d"
  by (simp add: moves_only_def)

lemma moves_only_trans:
  assumes "moves_only pid d d1" "moves_only pid d1 d2"
  shows "moves_only pid d d2"
  unfolding moves_only_def
proof (intro conjI allI)
  show "map p_id (projects d2) = map p_id (projects d)"
    using assms by (simp add: moves_only_def)
next
  fix i
  from assms(1) have s1: "status_of i d1 = status_of i d
      \<or> (i = pid \<and> status_of i d \<noteq> None
          \<and> (status_of i d1 = Some ''joined'' \<or> status_of i d1 = Some ''contacted''))"
    by (simp add: moves_only_def)
  from assms(2) have s2: "status_of i d2 = status_of i d1
      \<or> (i = pid \<and> status_of i d1 \<noteq> None
          \<and> (status_of i d2 = Some ''joined'' \<or> status_of i d2 = Some ''contacted''))"
    by (simp add: moves_only_def)
  from s1 s2 show "status_of i d2 = status_of i d
      \<or> (i = pid \<and> status_of i d \<noteq> None
          \<and> (status_of i d2 = Some ''joined'' \<or> status_of i d2 = Some ''contacted''))"
    by metis
qed

lemma moves_only_add_telegram_group:
  "moves_only pid d (snd (add_telegram_group clk (Some pid) url joined err d))"
  by (auto simp: moves_only_def status_of_add_telegram_group)

lemma moves_only_add_message:
  "moves_only pid d (snd (add_message clk (Some pid) aid text tmpl success err d))"
  by (auto simp: moves_only_def status_of_add_message)

lemma moves_only_record_admins:
  "moves_only pid d (record_admins clk k pid' gid xs d)"
  by (simp add: moves_only_def)

lemma process_project_moves:
  "moves_only (p_id p) d (snd (snd (process_project w p tmpl a d)))"
proof (cases "p_telegram_url p")
  case None
  then show ?thesis by (simp add: process_project_def Let_def moves_only_refl)
next
  case (Some url)
  show ?thesis
  proof (cases "url = []")
    case True
    with Some show ?thesis by (simp add: process_project_def Let_def moves_only_refl)
  next
    case url: False
    obtain rj a1 where j: "join_group (pw_join w) url a = (rj, a1)"
      by (cases "join_group (pw_join w) url a")
    show ?thesis
    proof (cases rj)
      case (Inl e)
      with Some url j show ?thesis by (simp add: process_project_def Let_def moves_only_refl)
    next
      case (Inr jr)
      obtain joined join_error where jr: "jr = (joined, join_error)" by (cases jr)
      show ?thesis
      proof (cases joined)
        case False
        with Some url j Inr jr show ?thesis
          by (simp add: process_project_def Let_def moves_only_add_telegram_group)
      next
        case True
        obtain gid d1 where g: "add_telegram_group (pw_clk_group w) (Some (p_id p)) url True None d = (gid, d1)"
          by (cases "add_telegram_group (pw_clk_group w) (Some (p_id p)) url True None d")
        have m1: "moves_only (p_id p) d d1"
          using moves_only_add_telegram_group[of "p_id p" d "pw_clk_group w" url True None] g
          by simp
        obtain found a2 where ga: "get_group_admins (pw_admins w) url a1 = (found, a2)"
          by (cases "get_group_admins (pw_admins w) url a1")
        show ?thesis
        proof (cases found)
          case Nil
          with Some url j Inr jr True g ga m1 show ?thesis
            by (simp add: process_project_def Let_def)
        next
          case (Cons first others)
          define d2 where "d2 = (if truthy_id gid
              then record_admins (pw_clk_admin w) 0 (Some (p_id p)) gid (first # others) d1
              else d1)"
          define target where "target = (case find ai_is_owner (first # others) of
              Some t \<Rightarrow> t | None \<Rightarrow> first)"
          have m2: "moves_only (p_id p) d d2"
            using m1 moves_only_trans[OF m1 moves_only_record_admins]
            by (simp add: d2_def del: record_admins.simps)
          obtain rs a3 where s: "send_dm (pw_dm w) (ai_username target) tmpl (p_name p) (p_symbol p) a2 = (rs, a3)"
            by (cases "send_dm (pw_dm w) (ai_username target) tmpl (p_name p) (p_symbol p) a2")
          show ?thesis
          proof (cases rs)
            case (Inl e)
            with Some url j Inr jr True g ga Cons s m2 show ?thesis
              by (simp add: process_project_def Let_def d2_def target_def
                  del: record_admins.simps)
          next
            case (Inr sr)
            obtain sent_ok dm_error where sr: "sr = (sent_ok, dm_error)" by (cases sr)
            have "moves_only (p_id p) d
                (snd (add_message (pw_clk_message w) (Some (p_id p)) aid tmpl (Some ''default'')
                        sent_ok dm_error d2))" for aid
              using moves_only_trans[OF m2 moves_only_add_message] .
            with Some url j \<open>rj = Inr jr\<close> jr True g ga Cons s Inr sr show ?thesis
              by (simp add: process_project_def Let_def d2_def target_def
                  del: record_admins.simps)
          qed
        qed
      qed
    qed
  qed
qed

lemma status_forward_refl [simp]: "status_forward s s"
  by (simp add: status_forward_def)

lemma status_forward_trans:
  "status_forward s s' \<Longrightarrow> status_forward s' s'' \<Longrightarrow> status_forward s s''"
  by (auto simp: status_forward_def split: option.splits)

lemma status_forward_discovered [simp]:
  "status_forward ''discovered'' ''joined''" "status_forward ''discovered'' ''contacted''"
  by (simp_all add: status_forward_def status_stage_def)

lemma never_back_refl: "never_back d d"
  by (simp add: never_back_def)

lemma never_back_trans:
  assumes "never_back d d1" "never_back d1 d2"
  shows "never_back d d2"
  unfolding never_back_def
proof (intro allI impI)
  fix i s assume "status_of i d = Some s"
  with assms(1) obtain s1 where s1: "status_of i d1 = Some s1" "status_forward s s1"
    by (auto simp: never_back_def)
  with assms(2) obtain s2 where s2: "status_of i d2 = Some s2" "status_forward s1 s2"
    by (auto simp: never_back_def)
  with s1 show "\<exists>s'. status_of i d2 = Some s' \<and> status_forward s s'"
    using status_forward_trans by blast
qed

lemma never_back_same:
  "(\<And>i. status_of i d' = status_of i d) \<Longrightarrow> never_back d d'"
  by (simp add: never_back_def)

lemma moves_only_never_back:
  assumes "moves_only pid d d1" "status_of pid d = Some ''discovered''"
  shows "never_back d d1"
  unfolding never_back_def
proof (intro allI impI)
  fix i s assume s: "status_of i d = Some s"
  from assms(1) have "status_of i d1 = status_of i d
      \<or> (i = pid \<and> (status_of i d1 = Some ''joined'' \<or> status_of i d1 = Some ''contacted''))"
    by (auto simp: moves_only_def)
  then show "\<exists>s'. status_of i d1 = Some s' \<and> status_forward s s'"
    using s assms(2) by auto
qed

lemma outreach_loop_never_back:
  assumes "distinct (map p_id ps)"
    and "\<forall>p \<in> set ps. status_of (p_id p) d = Some ''discovered''"
  shows "map p_id (projects (snd (snd (outreach_loop world cfg ps a d)))) = map p_id (projects d)
       \<and> never_back d (snd (snd (outreach_loop world cfg ps a d)))"
  using assms
proof (induction ps arbitrary: a d)
  case Nil
  then show ?case by (simp add: never_back_refl)
next
  case (Cons p ps)
  obtain r a1 d1 where pp: "process_project (world p) p (cfg_message_template cfg) a d = (r, a1, d1)"
    by (cases "process_project (world p) p (cfg_message_template cfg) a d")
  have m: "moves_only (p_id p) d d1"
    using process_project_moves[of p d "world p" "cfg_message_template cfg" a] pp by simp
  have disc: "status_of (p_id p) d = Some ''discovered''"
    using Cons.prems(2) by simp
  have nb: "never_back d d1"
    using moves_only_never_back[OF m disc] .
  have ids: "map p_id (projects d1) = map p_id (projects d)"
    using m by (simp add: moves_only_def)
  show ?case
  proof (cases r)
    case (Inl e)
    with pp nb ids show ?thesis by simp
  next
    case (Inr result)
    have rest: "\<forall>q \<in> set ps. status_of (p_id q) d1 = Some ''discovered''"
    proof
      fix q assume q: "q \<in> set ps"
      then have "p_id q \<noteq> p_id p" using Cons.prems(1) by (metis distinct.simps(2) image_eqI list.simps(9) set_map)
      then have "status_of (p_id q) d1 = status_of (p_id q) d"
        using m by (auto simp: moves_only_def)
      then show "status_of (p_id q) d1 = Some ''discovered''"
        using Cons.prems(2) q by simp
    qed
    have dist: "distinct (map p_id ps)" using Cons.prems(1) by simp
    note ih = Cons.IH[OF dist rest]
    show ?thesis
      using pp Inr ih ids nb never_back_trans by (auto simp: Let_def)
  qed
qed

lemma fold_max_ge: "b \<le> fold max xs (b::nat)"
  by (induction xs arbitrary: b) (auto intro: order_trans[OF max.cobounded2])

lemma fold_max_mem: "x \<in> set xs \<Longrightarrow> x \<le> fold max xs (b::nat)"
proof (induction xs arbitrary: b)
  case Nil
  then show ?case by simp
next
  case (Cons y ys)
  show ?case
  proof (cases "x = y")
    case True
    have "y \<le> max y b" by simp
    also have "\<dots> \<le> fold max ys (max y b)" by (rule fold_max_ge)
    finally show ?thesis using True by simp
  next
    case False
    with Cons show ?thesis by simp
  qed
qed

lemma next_rowid_fresh: "next_rowid ids \<notin> set ids"
  using fold_max_mem[of "next_rowid ids" ids 0] by (auto simp: next_rowid_def)

lemma find_append_first:
  "find P xs = Some x \<Longrightarrow> find P (xs @ ys) = Some x"
  by (induction xs) (auto split: if_splits)

lemma status_of_append:
  "status_of i d = Some s \<Longrightarrow> status_of i (d\<lparr>projects := projects d @ rows\<rparr>) = Some s"
  by (auto simp: status_of_def find_append_first)

lemma status_of_daily_metrics_frame [simp]:
  "status_of i (increment_daily_metric day m n d) = status_of i d"
  by (simp add: status_of_def)

lemma add_project_never_back: "never_back d (snd (add_project clk t d))"
  unfolding never_back_def
proof (intro allI impI)
  fix i s assume s: "status_of i d = Some s"
  have "status_of i (snd (add_project clk t d)) = Some s"
    using s status_of_append[OF s]
    by (simp add: add_project_def insert_project_def Let_def split: option.splits)
  then show "\<exists>s'. status_of i (snd (add_project clk t d)) = Some s' \<and> status_forward s s'"
    by simp
qed

lemma add_project_distinct:
  assumes "distinct (map p_id (projects d))"
  shows "distinct (map p_id (projects (snd (add_project clk t d))))"
  using assms next_rowid_fresh[of "map p_id (projects d)"]
  by (simp add: add_project_def insert_project_def Let_def new_project_def split: option.splits)

lemma add_projects_never_back:
  "never_back d (add_projects clk k ts d)"
proof (induction ts arbitrary: k d)
  case Nil
  then show ?case by (simp add: never_back_refl)
next
  case (Cons t ts)
  show ?case
    using never_back_trans[OF add_project_never_back Cons.IH] by simp
qed

lemma add_projects_distinct:
  "distinct (map p_id (projects d)) \<Longrightarrow> distinct (map p_id (projects (add_projects clk k ts d)))"
  by (induction ts arbitrary: k d) (simp_all add: add_project_distinct)

lemma update_index_status_frame:
  "status_of i (update_index_status clk pid ix d) = status_of i d"
  "map p_id (projects (update_index_status clk pid ix d)) = map p_id (projects d)"
proof -
  let ?f = "\<lambda>r. if Some (p_id r) = pid
      then r\<lparr>p_is_indexed := Some ix, p_index_checked_at := Some (clk_timestamp clk)\<rparr> else r"
  have id: "p_id (?f r) = p_id r" for r by simp
  have st: "p_status (?f r) = p_status r" for r by simp
  have "find (\<lambda>r. p_id r = i) (map ?f (projects d)) = map_option ?f (find (\<lambda>r. p_id r = i) (projects d))"
    using find_id_map[of ?f i "projects d"] id by blast
  then show "status_of i (update_index_status clk pid ix d) = status_of i d"
    using st by (cases "find (\<lambda>r. p_id r = i) (projects d)")
      (simp_all add: status_of_def update_index_status_def Let_def)
  show "map p_id (projects (update_index_status clk pid ix d)) = map p_id (projects d)"
    by (simp add: update_index_status_def Let_def comp_def)
qed

lemma check_indexes_frame:
  "status_of i (check_indexes probe clk k ts d) = status_of i d
   \<and> map p_id (projects (check_indexes probe clk k ts d)) = map p_id (projects d)"
  by (induction probe clk k ts d rule: check_indexes.induct)
     (simp_all add: update_index_status_frame split: option.splits)

lemma set_insert_desc: "set (insert_desc x ys) = insert x (set ys)"
  by (induction ys) auto

lemma distinct_insert_desc:
  "distinct (map p_id (insert_desc x ys)) = distinct (map p_id (x # ys))"
  by (induction ys) (auto simp: set_insert_desc)

lemma set_order_by: "set (order_by_discovered_desc rows) = set rows"
  by (induction rows) (simp_all add: order_by_discovered_desc_def set_insert_desc)

lemma distinct_order_by:
  "distinct (map p_id rows) \<Longrightarrow> distinct (map p_id (order_by_discovered_desc rows))"
proof (induction rows)
  case Nil
  then show ?case by (simp add: order_by_discovered_desc_def)
next
  case (Cons r rows)
  then have "distinct (map p_id (order_by_discovered_desc rows))"
    and "p_id r \<notin> set (map p_id (order_by_discovered_desc rows))"
    using set_order_by[of rows] by auto
  then show ?case
    using distinct_insert_desc[of r "foldr insert_desc rows []"]
    by (simp add: order_by_discovered_desc_def)
qed

lemma status_of_row:
  assumes "distinct (map p_id rows)" "r \<in> set rows"
  shows "find (\<lambda>x. p_id x = p_id r) rows = Some r"
  using assms by (induction rows) auto

lemma get_uncontacted_projects_rows:
  assumes "distinct (map p_id (projects d))"
  shows "distinct (map p_id (get_uncontacted_projects limit flag d))
       \<and> (\<forall>p \<in> set (get_uncontacted_projects limit flag d).
             status_of (p_id p) d = Some ''discovered'')"
proof
  let ?sel = "filter (\<lambda>r. p_status r = ''discovered'' \<and> p_telegram_url r \<noteq> None
                     \<and> (if flag then p_is_indexed r = Some False else True)) (projects d)"
  have "distinct (map p_id ?sel)" using assms by (simp add: distinct_map_filter)
  then have "distinct (map p_id (order_by_discovered_desc ?sel))" by (rule distinct_order_by)
  then have "distinct (take limit (map p_id (order_by_discovered_desc ?sel)))"
    by (rule distinct_take)
  then show "distinct (map p_id (get_uncontacted_projects limit flag d))"
    by (simp add: get_uncontacted_projects_def take_map)
  show "\<forall>p \<in> set (get_uncontacted_projects limit flag d). status_of (p_id p) d = Some ''discovered''"
  proof
    fix p assume "p \<in> set (get_uncontacted_projects limit flag d)"
    then have "p \<in> set (order_by_discovered_desc ?sel)"
      unfolding get_uncontacted_projects_def by (rule in_set_takeD)
    then have "p \<in> set (projects d)" "p_status p = ''discovered''"
      by (simp_all add: set_order_by)
    then show "status_of (p_id p) d = Some ''discovered''"
      using status_of_row[OF assms] by (simp add: status_of_def)
  qed
qed

lemma scrape_cycle_never_back:
  assumes "distinct (map p_id (projects d))"
  shows "distinct (map p_id (projects (snd (snd (scrape_cycle w cfg a d)))))
       \<and> never_back d (snd (snd (scrape_cycle w cfg a d)))"
proof (cases "cfg_urls cfg = []")
  case True
  then show ?thesis using assms by (simp add: scrape_cycle_def never_back_refl)
next
  case urls: False
  show ?thesis
  proof (cases "new_tokens_of (cw_discover w) (chains_of_urls (cfg_urls cfg)) d")
    case (Inl e)
    then show ?thesis using assms urls by (simp add: scrape_cycle_def never_back_refl)
  next
    case (Inr new_tokens)
    show ?thesis
    proof (cases "new_tokens = []")
      case True
      then show ?thesis using assms urls Inr by (simp add: scrape_cycle_def never_back_refl)
    next
      case False
      define d1 where "d1 = add_projects (cw_clk_add w) 0 new_tokens d"
      define d2 where "d2 = (if cfg_index_enabled cfg
          then check_indexes (cw_check_indexed w) (cw_clk_index w) 0 new_tokens d1 else d1)"
      define ps where "ps = get_uncontacted_projects 20 (cfg_only_target_unindexed cfg) d2"
      have nb1: "never_back d d1" and dist1: "distinct (map p_id (projects d1))"
        using add_projects_never_back add_projects_distinct[OF assms] by (simp_all add: d1_def)
      have st2: "status_of i d2 = status_of i d1" for i
        by (simp add: d2_def check_indexes_frame)
      have ids2: "map p_id (projects d2) = map p_id (projects d1)"
        by (simp add: d2_def check_indexes_frame)
      have nb2: "never_back d d2"
        using never_back_trans[OF nb1 never_back_same[of d2 d1]] st2 by simp
      have dist2: "distinct (map p_id (projects d2))"
        using dist1 ids2 by simp
      note rows = get_uncontacted_projects_rows[OF dist2, of 20 "cfg_only_target_unindexed cfg"]
      from rows have pd: "distinct (map p_id ps)"
        and pdisc: "\<forall>p \<in> set ps. status_of (p_id p) d2 = Some ''discovered''"
        by (simp_all add: ps_def)
      note loop = outreach_loop_never_back[OF pd pdisc, of "cw_process w" cfg a]
      have eq: "scrape_cycle w cfg a d = outreach_loop (cw_process w) cfg ps a d2"
        using urls Inr False by (simp add: scrape_cycle_def Let_def d1_def d2_def ps_def)
      show ?thesis
        using loop dist2 never_back_trans[OF nb2] by (simp add: eq)
    qed
  qed
qed

lemma run_cycles_never_back:
  assumes "distinct (map p_id (projects d))"
  shows "distinct (map p_id (projects (snd (run_cycles ws cfg a d))))
       \<and> never_back d (snd (run_cycles ws cfg a d))"
  using assms
proof (induction ws arbitrary: a d)
  case Nil
  then show ?case by (simp add: never_back_refl)
next
  case (Cons w ws)
  obtain e a1 d1 where c: "scrape_cycle w cfg a d = (e, a1, d1)"
    by (cases "scrape_cycle w cfg a d")
  from scrape_cycle_never_back[OF Cons.prems, of w cfg a] c
  have d1: "distinct (map p_id (projects d1))" and nb: "never_back d d1"
    by simp_all
  from Cons.IH[OF d1, of a1] show ?case
    using c never_back_trans[OF nb] by simp
qed

lemma status_forward_joined [simp]: "status_forward ''joined'' ''contacted''"
  by (simp add: status_forward_def status_stage_def)

lemma writes_in_order:
  assumes "status_of i d = Some ''discovered''"
  shows "never_back d (snd (add_telegram_group c1 (Some i) url joined err d))
       \<and> never_back (snd (add_telegram_group c1 (Some i) url joined err d))
           (snd (add_message c2 (Some i) aid text tmpl ok err'
                  (record_admins ck k (Some i) gid xs
                     (snd (add_telegram_group c1 (Some i) url joined err d)))))"
proof
  let ?d1 = "snd (add_telegram_group c1 (Some i) url joined err d)"
  let ?d2 = "record_admins ck k (Some i) gid xs ?d1"
  let ?d3 = "snd (add_message c2 (Some i) aid text tmpl ok err' ?d2)"
  show "never_back d ?d1"
    using moves_only_never_back[OF moves_only_add_telegram_group assms] .
  have s1: "status_of i ?d1 = Some ''discovered'' \<or> status_of i ?d1 = Some ''joined''"
    using assms by (simp add: status_of_add_telegram_group)
  show "never_back ?d1 ?d3"
    unfolding never_back_def
  proof (intro allI impI)
    fix j s assume s: "status_of j ?d1 = Some s"
    show "\<exists>s'. status_of j ?d3 = Some s' \<and> status_forward s s'"
    proof (cases "ok \<and> j = i")
      case True
      then have "status_of j ?d3 = Some ''contacted''"
        using s by (simp add: status_of_add_message)
      moreover have "status_forward s ''contacted''"
        using s s1 True by auto
      ultimately show ?thesis by simp
    next
      case False
      then have "status_of j ?d3 = Some s"
        using s by (auto simp: status_of_add_message)
      then show ?thesis by simp
    qed
  qed
qed


text \<open>
  The store itself does not check the order: \<open>update_project_status\<close> writes whatever it
  is given, and a successful join recorded for a project that was contacted before sets it
  back to \<open>joined\<close>. The cycle never makes this call.
\<close>

lemma store_does_not_check_order:
  "status_of 1 db_contacted = Some ''contacted''
   \<and> status_of 1 (snd (add_telegram_group clock_day1 (Some 1) ''https://t.me/alphagroup''
                         True None db_contacted)) = Some ''joined''"
  by (simp add: status_of_add_telegram_group group_conflict_def)
     (simp add: status_of_def db_contacted_def project_row_def)

text \<open>
  Claim C3. In the pipeline the status of a project never goes back. From a store whose
  project ids are distinct, after any number of cycles, each in any world, every project
  that was in the store is still there and its status is the one it had or a later one in
  \<open>discovered \<rightarrow> joined \<rightarrow> contacted \<rightarrow> {responded, converted}\<close>; the ids stay
  distinct. The cycle hands only projects that are \<open>discovered\<close> to
  \<open>process_project\<close>, and for such a project the two writes of a call come in order:
  the state after the group record is not behind the state before it, and the state after
  the message record is not behind the state after the group record.
\<close>

theorem status_never_regresses:
  assumes "distinct (map p_id (projects d))"
  shows "distinct (map p_id (projects (snd (run_cycles ws cfg a d))))
       \<and> (\<forall>i s. status_of i d = Some s \<longrightarrow>
             (\<exists>s'. status_of i (snd (run_cycles ws cfg a d)) = Some s' \<and> status_forward s s'))
       \<and> (\<forall>i. status_of i d = Some ''discovered'' \<longrightarrow>
             never_back d (snd (add_telegram_group c1 (Some i) url joined err d))
             \<and> never_back (snd (add_telegram_group c1 (Some i) url joined err d))
                 (snd (add_message c2 (Some i) aid text tmpl ok err'
                        (record_admins ck k (Some i) gid xs
                           (snd (add_telegram_group c1 (Some i) url joined err d))))))"
proof (intro conjI allI impI)
  show "distinct (map p_id (projects (snd (run_cycles ws cfg a d))))"
    using run_cycles_never_back[OF assms, of ws cfg a] by simp
next
  fix i s assume "status_of i d = Some s"
  moreover have "never_back d (snd (run_cycles ws cfg a d))"
    using run_cycles_never_back[OF assms, of ws cfg a] by simp
  ultimately show "\<exists>s'. status_of i (snd (run_cycles ws cfg a d)) = Some s' \<and> status_forward s s'"
    by (simp add: never_back_def)
next
  fix i assume h: "status_of i d = Some ''discovered''"
  show "never_back d (snd (add_telegram_group c1 (Some i) url joined err d))"
    using writes_in_order[OF h] by blast
  show "never_back (snd (add_telegram_group c1 (Some i) url joined err d))
                 (snd (add_message c2 (Some i) aid text tmpl ok err'
                        (record_admins ck k (Some i) gid xs
                           (snd (add_telegram_group c1 (Some i) url joined err d)))))"
    using writes_in_order[OF h] by blast
qed


lemma ex_new_tokens:
  "new_tokens_of (cw_discover cycle_world_example) (chains_of_urls (cfg_urls config_example))
     db_discovered = Inr [token_c]"
  by (simp add: new_tokens_of_def cycle_world_example_def config_example_def chains_example
      initial_skip_addresses_def get_uncontacted_projects_def db_discovered_def project_row_def
      order_by_discovered_desc_def token_c_def)

lemma ex_added:
  "add_projects (cw_clk_add cycle_world_example) 0 [token_c] db_discovered = db_added"
  by (simp add: add_project_def insert_project_def token_address_def token_c_def db_added_def
      cycle_world_example_def db_discovered_def project_row_def next_rowid_def Let_def
      increment_daily_metric_def clock_day1_def empty_metric_def new_project_def)

lemma ex_checked:
  "check_indexes (cw_check_indexed cycle_world_example) (cw_clk_index cycle_world_example) 0
     [token_c] db_added = db_added"
  by (simp add: token_c_def)

lemma ex_to_process:
  "get_uncontacted_projects 20 (cfg_only_target_unindexed config_example) db_added = [lead1]"
  by (simp add: get_uncontacted_projects_def db_added_def db_discovered_def config_example_def
      lead1_def project_row_def new_project_def order_by_discovered_desc_def token_c_def)

lemma ex_cycle:
  "scrape_cycle cycle_world_example config_example automator_fresh db_discovered
     = outreach_loop (cw_process cycle_world_example) config_example [lead1] automator_fresh db_added"
proof -
  have u: "cfg_urls config_example \<noteq> []" and i: "cfg_index_enabled config_example"
    by (simp_all add: config_example_def)
  show ?thesis
    using u i
    by (simp add: scrape_cycle_def ex_new_tokens ex_added ex_checked ex_to_process Let_def
        del: add_projects.simps check_indexes.simps)
qed


lemma ex_join:
  "join_group (pw_join world_success) ''https://t.me/alphagroup'' automator_fresh =
     (Inr (True, None),
      automator_fresh\<lparr>join_times := [6000000], stat_groups_joined := 1, slept := [30]\<rparr>)"
  by (simp add: join_group_def extract_example can_join_def world_success_def world_new_join_def
      automator_fresh_def Let_def)

lemma ex_status_added: "status_of 1 db_added = Some ''discovered''"
  by (simp add: status_of_def db_added_def db_discovered_def project_row_def)

lemma moves_only_keeps_some:
  "moves_only pid d d' \<Longrightarrow> status_of i d \<noteq> None \<Longrightarrow> status_of i d' \<noteq> None"
  by (auto simp: moves_only_def) metis

lemma process_project_contacted:
  assumes "p_telegram_url p = Some url" "url \<noteq> []"
    and "join_group (pw_join w) url a = (Inr (True, None), a1)"
    and "get_group_admins (pw_admins w) url a1 = (first # others, a2)"
    and "\<And>u. fst (send_dm (pw_dm w) u tmpl (p_name p) (p_symbol p) a2) = Inr (True, None)"
    and "status_of (p_id p) d \<noteq> None"
  shows "status_of (p_id p) (snd (snd (process_project w p tmpl a d))) = Some ''contacted''
       \<and> (\<exists>r. fst (process_project w p tmpl a d) = Inr r \<and> r_dm_sent r \<and> r_error r = None)"
proof -
  obtain gid d1 where g: "add_telegram_group (pw_clk_group w) (Some (p_id p)) url True None d = (gid, d1)"
    by (cases "add_telegram_group (pw_clk_group w) (Some (p_id p)) url True None d")
  have m1: "moves_only (p_id p) d d1"
    using moves_only_add_telegram_group[of "p_id p" d "pw_clk_group w" url True None] g by simp
  define d2 where "d2 = (if truthy_id gid
      then record_admins (pw_clk_admin w) 0 (Some (p_id p)) gid (first # others) d1 else d1)"
  define target where "target = (case find ai_is_owner (first # others) of
      Some t \<Rightarrow> t | None \<Rightarrow> first)"
  have m2: "moves_only (p_id p) d d2"
    using m1 moves_only_trans[OF m1 moves_only_record_admins]
    by (simp add: d2_def del: record_admins.simps)
  have some2: "status_of (p_id p) d2 \<noteq> None"
    using moves_only_keeps_some[OF m2 assms(6)] .
  obtain a3 where s: "send_dm (pw_dm w) (ai_username target) tmpl (p_name p) (p_symbol p) a2
      = (Inr (True, None), a3)"
    using assms(5)[of "ai_username target"]
    by (cases "send_dm (pw_dm w) (ai_username target) tmpl (p_name p) (p_symbol p) a2") simp
  have st: "status_of (p_id p)
      (snd (add_message (pw_clk_message w) (Some (p_id p)) aid tmpl (Some ''default'') True None d2))
      = Some ''contacted''" for aid
    using some2 by (simp add: status_of_add_message)
  show ?thesis
    using assms(1-4) g s st
    by (simp add: process_project_def Let_def d2_def target_def del: record_admins.simps)
qed

lemma ex_admins:
  "get_group_admins (pw_admins world_success) ''https://t.me/alphagroup''
     (automator_fresh\<lparr>join_times := [6000000], stat_groups_joined := 1, slept := [30]\<rparr>)
   = (info_bob # [info_alice],
      automator_fresh\<lparr>join_times := [6000000], stat_groups_joined := 1, slept := [30],
                      stat_admins_found := 2\<rparr>)"
  by (simp add: get_group_admins_def extract_example world_success_def world_admins_def
      automator_fresh_def info_bob_def info_alice_def Let_def)

lemma ex_send:
  "fst (send_dm (pw_dm world_success) u tmpl n s
     (automator_fresh\<lparr>join_times := [6000000], stat_groups_joined := 1, slept := [30],
                      stat_admins_found := 2\<rparr>)) = Inr (True, None)"
  by (simp add: send_dm_def can_dm_def world_success_def world_dm_ok_def automator_fresh_def Let_def)

lemma ex_process:
  "status_of 1 (snd (snd (process_project world_success lead1 ''Hi {project_name}''
      automator_fresh db_added))) = Some ''contacted''
   \<and> (\<exists>r. fst (process_project world_success lead1 ''Hi {project_name}'' automator_fresh db_added)
          = Inr r \<and> r_dm_sent r \<and> r_error r = None)"
  using process_project_contacted[OF lead1_url(1) _ ex_join ex_admins ex_send, of db_added
      "''Hi {project_name}''"] ex_status_added
  by (simp add: lead1_url)

lemma ex_run:
  "status_of 1 (snd (run_cycles [cycle_world_example] config_example automator_fresh db_discovered))
     = Some ''contacted''"
proof -
  obtain r a1 d1 where pp: "process_project world_success lead1 ''Hi {project_name}''
      automator_fresh db_added = (r, a1, d1)"
    by (cases "process_project world_success lead1 ''Hi {project_name}'' automator_fresh db_added")
  from ex_process pp obtain res where r: "r = Inr res" and st: "status_of 1 d1 = Some ''contacted''"
    by auto
  have w: "cw_process cycle_world_example lead1 = world_success"
    and t: "cfg_message_template config_example = ''Hi {project_name}''"
    by (simp_all add: cycle_world_example_def config_example_def)
  show ?thesis
    using pp r st by (simp add: ex_cycle w t Let_def)
qed


theorem status_never_regresses_witness:
  "distinct (map p_id (projects db_discovered))
   \<and> status_of 1 db_discovered = Some ''discovered''
   \<and> status_of 1 (snd (run_cycles [cycle_world_example] config_example automator_fresh db_discovered))
       = Some ''contacted''
   \<and> status_forward ''discovered'' ''contacted''
   \<and> \<not> status_forward ''contacted'' ''discovered''"
proof -
  have dd: "distinct (map p_id (projects db_discovered))"
    and s0: "status_of 1 db_discovered = Some ''discovered''"
    by (simp_all add: db_discovered_def status_of_def project_row_def)
  note inst = status_never_regresses[OF dd, of "[cycle_world_example]" config_example automator_fresh]
  from inst s0 obtain s' where
    "status_of 1 (snd (run_cycles [cycle_world_example] config_example automator_fresh db_discovered))
       = Some s'" and f: "status_forward ''discovered'' s'"
    by blast
  with ex_run have "s' = ''contacted''" by simp
  with f have fw: "status_forward ''discovered'' ''contacted''" by simp
  have nb: "\<not> status_forward ''contacted'' ''discovered''"
    by (simp add: status_forward_def status_stage_def)
  show ?thesis using dd s0 ex_run fw nb by simp
qed
end
